theory Spec2Isabelle
  imports
    Complex_Main
    "HOL-Library.Char_ord"
    "HOL-Library.List_Lexorder"
    "HOL-Library.Product_Lexorder"
begin

section \<open>JavaScript values as the handlers of server.js see them\<close>

text \<open>
  A JavaScript number is a double. The model keeps the finite ones as exact rationals (no
  rounding, no overflow to Infinity) and has \<open>NaN\<close> and the two infinities beside them.
\<close>

datatype jsnum = NaN | Fin rat | PosInf | NegInf

text \<open>
  A value of a parsed JSON body (\<open>express.json()\<close>), with \<open>JUndefined\<close> for what a
  destructuring reads from a missing key. An object is the list of its keys and values; the
  keys of a parsed object are distinct.
\<close>

datatype jsval =
    JUndefined
  | JNull
  | JBool bool
  | JNum jsnum
  | JStr string
  | JArr "jsval list"
  | JObj "(string \<times> jsval) list"

type_synonym jsobj = "(string \<times> jsval) list"

text \<open>\<open>const { date, ... } = req.body\<close>: the property, or undefined.\<close>

definition js_get :: "jsobj \<Rightarrow> string \<Rightarrow> jsval" where
  "js_get obj k = (case map_of obj k of None \<Rightarrow> JUndefined | Some v \<Rightarrow> v)"

text \<open>ToBoolean, which \<open>!x\<close>, \<open>if (x)\<close> and \<open>x || y\<close> apply.\<close>

fun truthy :: "jsval \<Rightarrow> bool" where
  "truthy JUndefined = False"
| "truthy JNull = False"
| "truthy (JBool b) = b"
| "truthy (JNum NaN) = False"
| "truthy (JNum (Fin q)) = (q \<noteq> 0)"
| "truthy (JNum PosInf) = True"
| "truthy (JNum NegInf) = True"
| "truthy (JStr s) = (s \<noteq> [])"
| "truthy (JArr xs) = True"
| "truthy (JObj kvs) = True"

text \<open>\<open>a || b\<close>\<close>

definition js_or :: "jsval \<Rightarrow> jsval \<Rightarrow> jsval" where
  "js_or a b = (if truthy a then a else b)"

fun isNaN :: "jsnum \<Rightarrow> bool" where
  "isNaN NaN = True"
| "isNaN (Fin q) = False"
| "isNaN PosInf = False"
| "isNaN NegInf = False"

subsection \<open>parseFloat and parseInt\<close>

definition is_ws :: "char \<Rightarrow> bool" where
  "is_ws c = (c \<in> set [CHR '' '', CHR 0x09, CHR 0x0A, CHR 0x0B, CHR 0x0C, CHR 0x0D])"

definition is_digit :: "char \<Rightarrow> bool" where
  "is_digit c = (48 \<le> (of_char c :: nat) \<and> (of_char c :: nat) \<le> 57)"

definition digit_val :: "char \<Rightarrow> nat" where
  "digit_val c = of_char c - 48"

definition digits_val :: "string \<Rightarrow> nat" where
  "digits_val ds = foldl (\<lambda>a c. 10 * a + digit_val c) 0 ds"

definition is_hex :: "char \<Rightarrow> bool" where
  "is_hex c = (is_digit c \<or> c \<in> set ''abcdefABCDEF'')"

definition hex_val :: "char \<Rightarrow> nat" where
  "hex_val c =
     (if is_digit c then digit_val c
      else if c \<in> set ''abcdef'' then of_char c - 87
      else of_char c - 55)"

definition hexs_val :: "string \<Rightarrow> nat" where
  "hexs_val ds = foldl (\<lambda>a c. 16 * a + hex_val c) 0 ds"

text \<open>An optional sign: whether it is a minus, and the rest.\<close>

fun take_sign :: "string \<Rightarrow> bool \<times> string" where
  "take_sign [] = (False, [])"
| "take_sign (c # cs) =
     (if c = CHR ''-'' then (True, cs)
      else if c = CHR ''+'' then (False, cs)
      else (False, c # cs))"

text \<open>
  The exponent part after the mantissa: \<open>e\<close> or \<open>E\<close>, an optional sign and at least one
  digit; anything else is no exponent, and the mantissa stands alone.
\<close>

definition exponent_of :: "string \<Rightarrow> int" where
  "exponent_of r =
     (case r of
        [] \<Rightarrow> 0
      | c # t \<Rightarrow>
          if c = CHR ''e'' \<or> c = CHR ''E'' then
            (let (neg, u) = take_sign t; ds = takeWhile is_digit u
             in if ds = [] then 0
                else if neg then - int (digits_val ds) else int (digits_val ds))
          else 0)"

definition scale10 :: "rat \<Rightarrow> int \<Rightarrow> rat" where
  "scale10 m e = (if 0 \<le> e then m * 10 ^ nat e else m / 10 ^ nat (- e))"

text \<open>
  \<open>parseFloat\<close> of a string: leading white space is skipped, then the longest prefix that
  is a decimal literal is read (sign, \<open>Infinity\<close>, or digits with an optional fraction and
  exponent); no such prefix gives \<open>NaN\<close>. Text after the prefix is ignored. A string is
  a list of bytes here, so the white space is the ASCII one (space, tab, line feed, vertical
  tab, form feed, carriage return).
\<close>

definition parseFloat_str :: "string \<Rightarrow> jsnum" where
  "parseFloat_str s =
     (let (neg, s2) = take_sign (dropWhile is_ws s) in
      if take 8 s2 = ''Infinity'' then (if neg then NegInf else PosInf)
      else
        (let ip = takeWhile is_digit s2;
             r1 = dropWhile is_digit s2;
             fp = (case r1 of [] \<Rightarrow> [] | c # t \<Rightarrow> if c = CHR ''.'' then takeWhile is_digit t else []);
             r2 = (case r1 of [] \<Rightarrow> [] | c # t \<Rightarrow> if c = CHR ''.'' then dropWhile is_digit t else r1)
         in if ip = [] \<and> fp = [] then NaN
            else
              (let m = scale10 (of_nat (digits_val (ip @ fp))) (exponent_of r2 - int (length fp))
               in Fin (if neg then - m else m))))"

text \<open>
  \<open>parseFloat(v)\<close> first turns \<open>v\<close> into a string. A number prints as a literal that reads
  back as itself; \<open>true\<close>, \<open>false\<close>, \<open>null\<close>, \<open>undefined\<close> and \<open>[object Object]\<close>
  have no numeric prefix; an array prints its elements separated by commas, so only its first
  element can contribute a numeric prefix.
\<close>

fun parseFloat :: "jsval \<Rightarrow> jsnum" where
  "parseFloat (JNum n) = n"
| "parseFloat (JStr s) = parseFloat_str s"
| "parseFloat (JArr (x # xs)) = parseFloat x"
| "parseFloat (JArr []) = NaN"
| "parseFloat JUndefined = NaN"
| "parseFloat JNull = NaN"
| "parseFloat (JBool b) = NaN"
| "parseFloat (JObj kvs) = NaN"

text \<open>
  \<open>parseInt\<close> of a string with no radix: white space, a sign, then hexadecimal digits after
  \<open>0x\<close> or \<open>0X\<close>, decimal digits otherwise; no digit gives \<open>NaN\<close>.
\<close>

definition parseInt_str :: "string \<Rightarrow> jsnum" where
  "parseInt_str s =
     (let (neg, s2) = take_sign (dropWhile is_ws s);
          sgn = (\<lambda>n. Fin (if neg then - of_nat n else of_nat n))
      in if take 2 s2 = ''0x'' \<or> take 2 s2 = ''0X'' then
           (let hs = takeWhile is_hex (drop 2 s2)
            in if hs = [] then NaN else sgn (hexs_val hs))
         else
           (let ds = takeWhile is_digit s2
            in if ds = [] then NaN else sgn (digits_val ds)))"

section \<open>Responses\<close>

text \<open>
  \<open>res.status(n).json(obj)\<close>; \<open>res.json(obj)\<close> alone answers 200. \<open>JSON.stringify\<close>
  leaves out a key whose value is undefined, so the fields a client reads are those of
  \<open>json_fields\<close>.
\<close>

record response =
  status :: nat
  body :: jsobj

definition json_fields :: "response \<Rightarrow> jsobj" where
  "json_fields r = filter (\<lambda>kv. snd kv \<noteq> JUndefined) (body r)"

definition has_field :: "response \<Rightarrow> string \<Rightarrow> bool" where
  "has_field r k = (map_of (json_fields r) k \<noteq> None)"

definition respond :: "nat \<Rightarrow> jsobj \<Rightarrow> response" where
  "respond n obj = \<lparr>status = n, body = obj\<rparr>"

text \<open>The two bodies every handler uses for its failures.\<close>

definition failure :: "nat \<Rightarrow> string \<Rightarrow> response" where
  "failure n msg = respond n [(''success'', JBool False), (''error'', JStr msg)]"

definition missing_fields_msg :: string where
  "missing_fields_msg = ''Missing required fields: date, amount, and budget_type are required''"

definition invalid_amount_msg :: string where
  "invalid_amount_msg = ''Amount must be a valid number''"

definition not_found_msg :: string where
  "not_found_msg = ''Transaction not found''"

text \<open>\<open>rows[0]\<close>: undefined on an empty result.\<close>

definition first_row :: "jsval list \<Rightarrow> jsval" where
  "first_row rs = (case rs of [] \<Rightarrow> JUndefined | r # _ \<Rightarrow> r)"

section \<open>The database engine as the handlers call it\<close>

text \<open>
  The SQL texts of server.js, one constructor each. The two dialects differ in the
  placeholders (\<open>?\<close> against \<open>$n\<close>), in the month function of the four statements that
  group by month, and in \<open>RETURNING *\<close>, which only the PostgreSQL insert and update carry.
  \<open>SelectTransactions\<close> holds the conditions appended after \<open>WHERE 1=1\<close>, in order; each
  takes the next parameter, and the last two parameters are those of \<open>LIMIT\<close> and
  \<open>OFFSET\<close>.
\<close>

datatype cond = BudgetTypeEq | DateGe | DateLe

datatype stmt =
    SelectTransactions "cond list"
  | SelectById
  | InsertTransaction
  | InsertReturning
  | UpdateTransaction
  | UpdateReturning
  | DeleteById
  | BudgetSummary
  | MonthlySummary
  | CategoryBreakdown
  | Trends
  | Overview
  | AvailableMonths
  | BudgetTypes

text \<open>
  What a call resolves with: the rows (\<open>db.all\<close>, \<open>pool.query(...).rows\<close>), and for
  \<open>db.run\<close> the \<open>lastID\<close> and \<open>changes\<close> of the statement. A call that rejects gives
  \<open>Inl\<close> of the error's message.
\<close>

record qresult =
  rows :: "jsobj list"
  lastID :: nat
  changes :: nat

type_synonym 'db engine = "stmt \<Rightarrow> jsval list \<Rightarrow> 'db \<Rightarrow> (string + qresult) \<times> 'db"

text \<open>
  \<open>try { r = await call; ... } catch (error) { res.status(500).json({ success: false,
  error: error.message }) }\<close>: a rejected call ends the handler with the 500 response.
\<close>

definition awaiting ::
  "(string + qresult) \<times> 'db \<Rightarrow> (qresult \<Rightarrow> 'db \<Rightarrow> response \<times> 'db) \<Rightarrow> response \<times> 'db" where
  "awaiting r k = (case r of (Inl m, d) \<Rightarrow> (failure 500 m, d) | (Inr res, d) \<Rightarrow> k res d)"

section \<open>The route handlers\<close>

subsection \<open>GET /api/transactions\<close>

text \<open>
  The query string: each parameter absent or a string. \<open>limit\<close> and \<open>offset\<close> default to
  the numbers 100 and 0, and \<open>parseInt\<close> of those is 100 and 0.
\<close>

record list_query =
  q_budget_type :: "string option"
  q_start_date :: "string option"
  q_end_date :: "string option"
  q_limit :: "string option"
  q_offset :: "string option"

text \<open>\<open>if (p) { sql += ' AND ...'; params.push(p); }\<close>: an empty string is falsy.\<close>

definition add_filter ::
  "cond \<Rightarrow> string option \<Rightarrow> cond list \<times> jsval list \<Rightarrow> cond list \<times> jsval list" where
  "add_filter c p acc =
     (case p of
        None \<Rightarrow> acc
      | Some s \<Rightarrow> if s = [] then acc else (fst acc @ [c], snd acc @ [JStr s]))"

definition parseInt_default :: "string option \<Rightarrow> rat \<Rightarrow> jsnum" where
  "parseInt_default p d = (case p of None \<Rightarrow> Fin d | Some s \<Rightarrow> parseInt_str s)"

definition get_transactions :: "'db engine \<Rightarrow> list_query \<Rightarrow> 'db \<Rightarrow> response \<times> 'db" where
  "get_transactions E q db =
     (let acc = add_filter DateLe (q_end_date q)
                  (add_filter DateGe (q_start_date q)
                    (add_filter BudgetTypeEq (q_budget_type q) ([], [])));
          params = snd acc @ [JNum (parseInt_default (q_limit q) 100),
                              JNum (parseInt_default (q_offset q) 0)]
      in awaiting (E (SelectTransactions (fst acc)) params db)
           (\<lambda>res d. (respond 200
              [(''success'', JBool True),
               (''data'', JArr (map JObj (rows res))),
               (''count'', JNum (Fin (of_nat (length (rows res)))))], d)))"

subsection \<open>GET /api/transactions/:id\<close>

definition first_row_json :: "jsobj list \<Rightarrow> jsval" where
  "first_row_json rs = first_row (map JObj rs)"

definition get_transaction :: "'db engine \<Rightarrow> string \<Rightarrow> 'db \<Rightarrow> response \<times> 'db" where
  "get_transaction E ident db =
     awaiting (E SelectById [JStr ident] db)
       (\<lambda>res d.
          if rows res = [] then (failure 404 not_found_msg, d)
          else (respond 200 [(''success'', JBool True), (''data'', first_row_json (rows res))], d))"

subsection \<open>POST /api/transactions and PUT /api/transactions/:id\<close>

text \<open>\<open>payedOff !== undefined ? payedOff : true\<close>\<close>

definition payedOffValue :: "jsval \<Rightarrow> jsval" where
  "payedOffValue payedOff = (if payedOff \<noteq> JUndefined then payedOff else JBool True)"

text \<open>The first six parameters of the insert and of the update.\<close>

definition txn_params :: "jsobj \<Rightarrow> jsval list" where
  "txn_params b =
     [js_get b ''date'',
      js_or (js_get b ''name'') JNull,
      js_or (js_get b ''description'') JNull,
      js_get b ''budget_type'',
      JNum (parseFloat (js_get b ''amount'')),
      payedOffValue (js_get b ''payedOff'')]"

text \<open>
  The two checks both handlers start with: the response of the first one that fails, or
  \<open>None\<close> when the body passes.
\<close>

definition validate :: "jsobj \<Rightarrow> response option" where
  "validate b =
     (if \<not> truthy (js_get b ''date'') \<or> \<not> truthy (js_get b ''amount'')
         \<or> \<not> truthy (js_get b ''budget_type'')
      then Some (failure 400 missing_fields_msg)
      else if isNaN (parseFloat (js_get b ''amount''))
      then Some (failure 400 invalid_amount_msg)
      else None)"

definition post_transaction :: "bool \<Rightarrow> 'db engine \<Rightarrow> jsobj \<Rightarrow> 'db \<Rightarrow> response \<times> 'db" where
  "post_transaction use_sqlite E b db =
     (case validate b of
        Some r \<Rightarrow> (r, db)
      | None \<Rightarrow>
          if use_sqlite then
            awaiting (E InsertTransaction (txn_params b) db)
              (\<lambda>ins d1.
                 awaiting (E SelectById [JNum (Fin (of_nat (lastID ins)))] d1)
                   (\<lambda>sel d2. (respond 201
                      [(''success'', JBool True),
                       (''data'', first_row_json (rows sel)),
                       (''message'', JStr ''Transaction created successfully'')], d2)))
          else
            awaiting (E InsertReturning (txn_params b) db)
              (\<lambda>res d1. (respond 201
                 [(''success'', JBool True),
                  (''data'', first_row_json (rows res)),
                  (''message'', JStr ''Transaction created successfully'')], d1)))"

definition put_transaction ::
  "bool \<Rightarrow> 'db engine \<Rightarrow> string \<Rightarrow> jsobj \<Rightarrow> 'db \<Rightarrow> response \<times> 'db" where
  "put_transaction use_sqlite E ident b db =
     (case validate b of
        Some r \<Rightarrow> (r, db)
      | None \<Rightarrow>
          if use_sqlite then
            awaiting (E UpdateTransaction (txn_params b @ [JStr ident]) db)
              (\<lambda>upd d1.
                 awaiting (E SelectById [JStr ident] d1)
                   (\<lambda>sel d2.
                      if rows sel = [] then (failure 404 not_found_msg, d2)
                      else (respond 200
                        [(''success'', JBool True),
                         (''data'', first_row_json (rows sel)),
                         (''message'', JStr ''Transaction updated successfully'')], d2)))
          else
            awaiting (E UpdateReturning (txn_params b @ [JStr ident]) db)
              (\<lambda>res d1.
                 if rows res = [] then (failure 404 not_found_msg, d1)
                 else (respond 200
                   [(''success'', JBool True),
                    (''data'', first_row_json (rows res)),
                    (''message'', JStr ''Transaction updated successfully'')], d1)))"

subsection \<open>DELETE /api/transactions/:id\<close>

text \<open>Both dialects check that the row exists, then delete it.\<close>

definition delete_transaction :: "'db engine \<Rightarrow> string \<Rightarrow> 'db \<Rightarrow> response \<times> 'db" where
  "delete_transaction E ident db =
     awaiting (E SelectById [JStr ident] db)
       (\<lambda>existing d1.
          if rows existing = [] then (failure 404 not_found_msg, d1)
          else
            awaiting (E DeleteById [JStr ident] d1)
              (\<lambda>del d2. (respond 200
                 [(''success'', JBool True),
                  (''message'', JStr ''Transaction deleted successfully''),
                  (''data'', JObj [(''id'', JNum (parseInt_str ident))])], d2)))"

subsection \<open>The read-only aggregate routes and the health check\<close>

definition rows_route :: "'db engine \<Rightarrow> stmt \<Rightarrow> jsval list \<Rightarrow> 'db \<Rightarrow> response \<times> 'db" where
  "rows_route E st ps db =
     awaiting (E st ps db)
       (\<lambda>res d. (respond 200
          [(''success'', JBool True), (''data'', JArr (map JObj (rows res)))], d))"

definition summary_budget_types :: "'db engine \<Rightarrow> 'db \<Rightarrow> response \<times> 'db" where
  "summary_budget_types E db = rows_route E BudgetSummary [] db"

definition summary_monthly :: "'db engine \<Rightarrow> 'db \<Rightarrow> response \<times> 'db" where
  "summary_monthly E db = rows_route E MonthlySummary [] db"

definition month_required_msg :: string where
  "month_required_msg = ''Month parameter is required (format: YYYY-MM)''"

definition category_breakdown :: "'db engine \<Rightarrow> string option \<Rightarrow> 'db \<Rightarrow> response \<times> 'db" where
  "category_breakdown E month db =
     (case month of
        None \<Rightarrow> (failure 400 month_required_msg, db)
      | Some m \<Rightarrow>
          if m = [] then (failure 400 month_required_msg, db)
          else rows_route E CategoryBreakdown [JStr m] db)"

definition trends :: "'db engine \<Rightarrow> 'db \<Rightarrow> response \<times> 'db" where
  "trends E db = rows_route E Trends [] db"

definition stats_overview :: "'db engine \<Rightarrow> 'db \<Rightarrow> response \<times> 'db" where
  "stats_overview E db =
     awaiting (E Overview [] db)
       (\<lambda>res d. (respond 200
          [(''success'', JBool True), (''data'', first_row_json (rows res))], d))"

text \<open>\<open>months.map(m => m.month)\<close> and \<open>types.map(t => t.budget_type)\<close>\<close>

definition column_route :: "'db engine \<Rightarrow> stmt \<Rightarrow> string \<Rightarrow> 'db \<Rightarrow> response \<times> 'db" where
  "column_route E st k db =
     awaiting (E st [] db)
       (\<lambda>res d. (respond 200
          [(''success'', JBool True), (''data'', JArr (map (\<lambda>r. js_get r k) (rows res)))], d))"

definition available_months :: "'db engine \<Rightarrow> 'db \<Rightarrow> response \<times> 'db" where
  "available_months E db = column_route E AvailableMonths ''month'' db"

definition budget_types :: "'db engine \<Rightarrow> 'db \<Rightarrow> response \<times> 'db" where
  "budget_types E db = column_route E BudgetTypes ''budget_type'' db"

definition health :: "bool \<Rightarrow> response" where
  "health use_sqlite =
     respond 200
       [(''success'', JBool True),
        (''message'', JStr ''API is running''),
        (''database'', JStr (if use_sqlite then ''SQLite'' else ''PostgreSQL''))]"

subsection \<open>The routes together\<close>

datatype request =
    GetTransactions list_query
  | GetTransaction string
  | PostTransaction jsobj
  | PutTransaction string jsobj
  | DeleteTransaction string
  | GetSummaryBudgetTypes
  | GetSummaryMonthly
  | GetCategoryBreakdown "string option"
  | GetTrends
  | GetStatsOverview
  | GetAvailableMonths
  | GetBudgetTypes
  | GetHealth

fun handle :: "bool \<Rightarrow> 'db engine \<Rightarrow> request \<Rightarrow> 'db \<Rightarrow> response \<times> 'db" where
  "handle u E (GetTransactions q) db = get_transactions E q db"
| "handle u E (GetTransaction i) db = get_transaction E i db"
| "handle u E (PostTransaction b) db = post_transaction u E b db"
| "handle u E (PutTransaction i b) db = put_transaction u E i b db"
| "handle u E (DeleteTransaction i) db = delete_transaction E i db"
| "handle u E GetSummaryBudgetTypes db = summary_budget_types E db"
| "handle u E GetSummaryMonthly db = summary_monthly E db"
| "handle u E (GetCategoryBreakdown m) db = category_breakdown E m db"
| "handle u E GetTrends db = trends E db"
| "handle u E GetStatsOverview db = stats_overview E db"
| "handle u E GetAvailableMonths db = available_months E db"
| "handle u E GetBudgetTypes db = budget_types E db"
| "handle u E GetHealth db = (health u, db)"

section \<open>A model of the engine over the transactions table\<close>

text \<open>
  The table of postgres-schema.sql: \<open>id SERIAL PRIMARY KEY\<close>, \<open>date\<close> (not null),
  \<open>name\<close>, \<open>description\<close>, \<open>budget_type\<close>, \<open>amount DECIMAL(10, 2) NOT NULL\<close>,
  \<open>payedOff\<close> and \<open>created_at\<close>. The engine is not code of this repository; the model
  keeps what the statements need. A column holds the value that was bound to it and a select
  returns it as it is held (no rounding to two digits, no conversion of a date or a flag by
  the driver); an amount is a finite number, and the engine rejects any other.
\<close>

record row =
  r_id :: nat
  r_date :: jsval
  r_name :: jsval
  r_description :: jsval
  r_budget_type :: jsval
  r_amount :: rat
  r_payedOff :: jsval
  r_created_at :: nat

text \<open>The table in insertion order, the id sequence, and the clock that stamps a new row.\<close>

record db =
  table :: "row list"
  seq :: nat
  clock :: nat

definition row_json :: "row \<Rightarrow> jsobj" where
  "row_json r =
     [(''id'', JNum (Fin (of_nat (r_id r)))),
      (''date'', r_date r),
      (''name'', r_name r),
      (''description'', r_description r),
      (''budget_type'', r_budget_type r),
      (''amount'', JNum (Fin (r_amount r))),
      (''payedOff'', r_payedOff r),
      (''created_at'', JNum (Fin (of_nat (r_created_at r))))]"

subsection \<open>Comparing values\<close>

text \<open>
  The order of values in a comparison and in \<open>ORDER BY\<close>: null first, then numbers by value
  (a flag is 1 or 0), then text byte by byte, so that dates written \<open>YYYY-MM-DD\<close> compare
  as dates. A comparison with null is not true.
\<close>

fun sql_key :: "jsval \<Rightarrow> nat \<times> rat \<times> string" where
  "sql_key JUndefined = (0, 0, [])"
| "sql_key JNull = (0, 0, [])"
| "sql_key (JNum NaN) = (0, 0, [])"
| "sql_key (JNum NegInf) = (1, 0, [])"
| "sql_key (JNum (Fin q)) = (2, q, [])"
| "sql_key (JBool b) = (2, if b then 1 else 0, [])"
| "sql_key (JNum PosInf) = (3, 0, [])"
| "sql_key (JStr s) = (4, 0, s)"
| "sql_key (JArr xs) = (5, 0, [])"
| "sql_key (JObj kvs) = (5, 0, [])"

definition is_null :: "jsval \<Rightarrow> bool" where
  "is_null v = (fst (sql_key v) = 0)"

definition sql_le :: "jsval \<Rightarrow> jsval \<Rightarrow> bool" where
  "sql_le a b = (\<not> is_null a \<and> \<not> is_null b \<and> sql_key a \<le> sql_key b)"

definition sql_eq :: "jsval \<Rightarrow> jsval \<Rightarrow> bool" where
  "sql_eq a b = (\<not> is_null a \<and> \<not> is_null b \<and> sql_key a = sql_key b)"

fun cond_holds :: "cond \<Rightarrow> jsval \<Rightarrow> row \<Rightarrow> bool" where
  "cond_holds BudgetTypeEq v r = sql_eq (r_budget_type r) v"
| "cond_holds DateGe v r = sql_le v (r_date r)"
| "cond_holds DateLe v r = sql_le (r_date r) v"

subsection \<open>Parameters\<close>

text \<open>
  The parameter compared with the integer \<open>id\<close>: a string of decimal digits or a natural
  number denotes an id; anything else matches no row on SQLite and is rejected by PostgreSQL.
\<close>

definition id_of_string :: "string \<Rightarrow> nat option" where
  "id_of_string s = (if s \<noteq> [] \<and> list_all is_digit s then Some (digits_val s) else None)"

fun id_param :: "jsval \<Rightarrow> nat option" where
  "id_param (JStr s) = id_of_string s"
| "id_param (JNum (Fin q)) = (if 0 \<le> q \<and> q = of_int \<lfloor>q\<rfloor> then Some (nat \<lfloor>q\<rfloor>) else None)"
| "id_param v = None"

fun int_param :: "jsval \<Rightarrow> int option" where
  "int_param (JNum (Fin q)) = (if q = of_int \<lfloor>q\<rfloor> then Some \<lfloor>q\<rfloor> else None)"
| "int_param v = None"

fun amount_param :: "jsval \<Rightarrow> rat option" where
  "amount_param (JNum (Fin q)) = Some q"
| "amount_param v = None"

definition rejected :: "string \<Rightarrow> db \<Rightarrow> (string + qresult) \<times> db" where
  "rejected msg d = (Inl msg, d)"

definition resolved :: "jsobj list \<Rightarrow> nat \<Rightarrow> db \<Rightarrow> (string + qresult) \<times> db" where
  "resolved rs n d = (Inr \<lparr>rows = rs, lastID = seq d, changes = n\<rparr>, d)"

subsection \<open>Insert, update, delete, select by id\<close>

text \<open>
  \<open>INSERT INTO transactions (date, name, description, budget_type, amount, payedOff) VALUES
  (...)\<close>: the next id of the sequence, the clock as \<open>created_at\<close>. A null date, an amount
  that is not a finite number and an id already in the table are rejected. \<open>returning\<close> is
  whether the text ends in \<open>RETURNING *\<close>.
\<close>

definition new_row :: "jsval list \<Rightarrow> rat \<Rightarrow> db \<Rightarrow> row" where
  "new_row ps a d =
     \<lparr>r_id = Suc (seq d), r_date = ps ! 0, r_name = ps ! 1, r_description = ps ! 2,
      r_budget_type = ps ! 3, r_amount = a, r_payedOff = ps ! 5, r_created_at = clock d\<rparr>"

definition sql_insert :: "bool \<Rightarrow> jsval list \<Rightarrow> db \<Rightarrow> (string + qresult) \<times> db" where
  "sql_insert returning ps d =
     (if length ps \<noteq> 6 then rejected ''wrong number of parameters'' d
      else if is_null (ps ! 0) then rejected ''null value in column date'' d
      else
        (case amount_param (ps ! 4) of
           None \<Rightarrow> rejected ''invalid amount'' d
         | Some a \<Rightarrow>
             if Suc (seq d) \<in> set (map r_id (table d)) then rejected ''duplicate key'' d
             else
               resolved (if returning then [row_json (new_row ps a d)] else []) 1
                 (d\<lparr>table := table d @ [new_row ps a d], seq := Suc (seq d)\<rparr>)))"

text \<open>
  \<open>UPDATE transactions SET date = .., name = .., description = .., budget_type = ..,
  amount = .., payedOff = .. WHERE id = ..\<close>
\<close>

definition set_columns :: "jsval list \<Rightarrow> rat \<Rightarrow> row \<Rightarrow> row" where
  "set_columns ps a r =
     r\<lparr>r_date := ps ! 0, r_name := ps ! 1, r_description := ps ! 2,
       r_budget_type := ps ! 3, r_amount := a, r_payedOff := ps ! 5\<rparr>"

definition sql_update ::
  "bool \<Rightarrow> bool \<Rightarrow> jsval list \<Rightarrow> db \<Rightarrow> (string + qresult) \<times> db" where
  "sql_update use_sqlite returning ps d =
     (if length ps \<noteq> 7 then rejected ''wrong number of parameters'' d
      else if is_null (ps ! 0) then rejected ''null value in column date'' d
      else
        (case amount_param (ps ! 4) of
           None \<Rightarrow> rejected ''invalid amount'' d
         | Some a \<Rightarrow>
             (case id_param (ps ! 6) of
                None \<Rightarrow>
                  if use_sqlite then resolved [] 0 d
                  else rejected ''invalid input syntax for type integer'' d
              | Some i \<Rightarrow>
                  (let hit = filter (\<lambda>r. r_id r = i) (table d);
                       t' = map (\<lambda>r. if r_id r = i then set_columns ps a r else r) (table d)
                   in resolved
                        (if returning then map (\<lambda>r. row_json (set_columns ps a r)) hit else [])
                        (length hit) (d\<lparr>table := t'\<rparr>)))))"

text \<open>\<open>DELETE FROM transactions WHERE id = ..\<close> and \<open>SELECT * FROM transactions WHERE id = ..\<close>\<close>

definition sql_delete :: "bool \<Rightarrow> jsval list \<Rightarrow> db \<Rightarrow> (string + qresult) \<times> db" where
  "sql_delete use_sqlite ps d =
     (if length ps \<noteq> 1 then rejected ''wrong number of parameters'' d
      else
        (case id_param (ps ! 0) of
           None \<Rightarrow>
             if use_sqlite then resolved [] 0 d
             else rejected ''invalid input syntax for type integer'' d
         | Some i \<Rightarrow>
             resolved [] (length (filter (\<lambda>r. r_id r = i) (table d)))
               (d\<lparr>table := filter (\<lambda>r. r_id r \<noteq> i) (table d)\<rparr>)))"

definition sql_select_by_id :: "bool \<Rightarrow> jsval list \<Rightarrow> db \<Rightarrow> (string + qresult) \<times> db" where
  "sql_select_by_id use_sqlite ps d =
     (if length ps \<noteq> 1 then rejected ''wrong number of parameters'' d
      else
        (case id_param (ps ! 0) of
           None \<Rightarrow>
             if use_sqlite then resolved [] 0 d
             else rejected ''invalid input syntax for type integer'' d
         | Some i \<Rightarrow> resolved (map row_json (filter (\<lambda>r. r_id r = i) (table d))) 0 d))"

subsection \<open>The filtered list\<close>

text \<open>
  \<open>SELECT * FROM transactions WHERE 1=1 [AND budget_type = ..] [AND date >= ..]
  [AND date <= ..] ORDER BY date DESC LIMIT .. OFFSET ..\<close>. The limit and the offset must be
  integers. A negative limit means no limit on SQLite and a negative offset means 0 there;
  PostgreSQL rejects both.
\<close>

definition matching :: "cond list \<Rightarrow> jsval list \<Rightarrow> row list \<Rightarrow> row list" where
  "matching cs vs t = filter (\<lambda>r. list_all (\<lambda>cv. cond_holds (fst cv) (snd cv) r) (zip cs vs)) t"

definition by_date_desc :: "row list \<Rightarrow> row list" where
  "by_date_desc t = rev (sort_key (\<lambda>r. sql_key (r_date r)) t)"

definition page :: "int \<Rightarrow> int \<Rightarrow> 'a list \<Rightarrow> 'a list" where
  "page n_limit n_offset xs =
     (let ys = drop (nat n_offset) xs in if n_limit < 0 then ys else take (nat n_limit) ys)"

definition sql_select_transactions ::
  "bool \<Rightarrow> cond list \<Rightarrow> jsval list \<Rightarrow> db \<Rightarrow> (string + qresult) \<times> db" where
  "sql_select_transactions use_sqlite cs ps d =
     (if length ps \<noteq> length cs + 2 then rejected ''wrong number of parameters'' d
      else
        (case (int_param (ps ! length cs), int_param (ps ! Suc (length cs))) of
           (Some n_limit, Some n_offset) \<Rightarrow>
             if \<not> use_sqlite \<and> n_limit < 0 then rejected ''LIMIT must not be negative'' d
             else if \<not> use_sqlite \<and> n_offset < 0 then rejected ''OFFSET must not be negative'' d
             else resolved
                    (map row_json
                       (page n_limit n_offset (by_date_desc (matching cs (take (length cs) ps) (table d)))))
                    0 d
         | _ \<Rightarrow> rejected ''invalid LIMIT or OFFSET'' d))"

subsection \<open>Aggregates\<close>

text \<open>
  \<open>SELECT budget_type, COUNT(*), SUM(amount), AVG(amount), MIN(amount), MAX(amount) FROM
  transactions GROUP BY budget_type ORDER BY total_amount DESC\<close>, computed in one pass over
  the table: each row is added to the running aggregate of its group.
\<close>

record agg =
  g_count :: nat
  g_sum :: rat
  g_min :: rat
  g_max :: rat

fun add_to_group :: "jsval \<Rightarrow> rat \<Rightarrow> (jsval \<times> agg) list \<Rightarrow> (jsval \<times> agg) list" where
  "add_to_group k x [] = [(k, \<lparr>g_count = 1, g_sum = x, g_min = x, g_max = x\<rparr>)]"
| "add_to_group k x ((k', a) # gs) =
     (if k' = k
      then (k', \<lparr>g_count = Suc (g_count a), g_sum = g_sum a + x,
                 g_min = min (g_min a) x, g_max = max (g_max a) x\<rparr>) # gs
      else (k', a) # add_to_group k x gs)"

definition group_amounts :: "row list \<Rightarrow> (jsval \<times> agg) list" where
  "group_amounts t = foldl (\<lambda>gs r. add_to_group (r_budget_type r) (r_amount r) gs) [] t"

definition summary_row :: "jsval \<times> agg \<Rightarrow> jsobj" where
  "summary_row g =
     [(''budget_type'', fst g),
      (''transaction_count'', JNum (Fin (of_nat (g_count (snd g))))),
      (''total_amount'', JNum (Fin (g_sum (snd g)))),
      (''avg_amount'', JNum (Fin (g_sum (snd g) / of_nat (g_count (snd g))))),
      (''min_amount'', JNum (Fin (g_min (snd g)))),
      (''max_amount'', JNum (Fin (g_max (snd g))))]"

definition budget_summary :: "row list \<Rightarrow> (jsval \<times> agg) list" where
  "budget_summary t = rev (sort_key (\<lambda>g. g_sum (snd g)) (group_amounts t))"

text \<open>
  \<open>SELECT COUNT(*), SUM(amount), AVG(amount), MIN(date), MAX(date), COUNT(DISTINCT
  budget_type) FROM transactions\<close>: always one row; the aggregates of no row are null.
\<close>

definition sql_least :: "jsval list \<Rightarrow> jsval" where
  "sql_least vs =
     (case sort_key sql_key (filter (\<lambda>v. \<not> is_null v) vs) of [] \<Rightarrow> JNull | v # _ \<Rightarrow> v)"

definition sql_greatest :: "jsval list \<Rightarrow> jsval" where
  "sql_greatest vs =
     (case rev (sort_key sql_key (filter (\<lambda>v. \<not> is_null v) vs)) of [] \<Rightarrow> JNull | v # _ \<Rightarrow> v)"

definition overview_row :: "row list \<Rightarrow> jsobj" where
  "overview_row t =
     [(''total_transactions'', JNum (Fin (of_nat (length t)))),
      (''total_amount'', if t = [] then JNull else JNum (Fin (sum_list (map r_amount t)))),
      (''avg_amount'',
         if t = [] then JNull else JNum (Fin (sum_list (map r_amount t) / of_nat (length t)))),
      (''first_transaction'', sql_least (map r_date t)),
      (''last_transaction'', sql_greatest (map r_date t)),
      (''budget_types_count'',
         JNum (Fin (of_nat (length (remdups (filter (\<lambda>v. \<not> is_null v) (map r_budget_type t)))))))]"

text \<open>\<open>SELECT DISTINCT budget_type FROM transactions ORDER BY budget_type\<close>\<close>

definition distinct_budget_types :: "row list \<Rightarrow> jsobj list" where
  "distinct_budget_types t =
     map (\<lambda>v. [(''budget_type'', v)]) (sort_key sql_key (remdups (map r_budget_type t)))"

subsection \<open>The engine\<close>

text \<open>
  The four statements that group by month (\<open>strftime\<close>, \<open>DATE_TRUNC\<close>, \<open>TO_CHAR\<close>) depend
  on the engine's date functions; their rows are a parameter \<open>months\<close> of the model, a
  function of the statement, its parameters and the table. They change nothing.
\<close>

type_synonym month_queries = "stmt \<Rightarrow> jsval list \<Rightarrow> row list \<Rightarrow> jsobj list"

fun sql_exec :: "bool \<Rightarrow> month_queries \<Rightarrow> db engine" where
  "sql_exec u months (SelectTransactions cs) ps d = sql_select_transactions u cs ps d"
| "sql_exec u months SelectById ps d = sql_select_by_id u ps d"
| "sql_exec u months InsertTransaction ps d = sql_insert False ps d"
| "sql_exec u months InsertReturning ps d = sql_insert True ps d"
| "sql_exec u months UpdateTransaction ps d = sql_update u False ps d"
| "sql_exec u months UpdateReturning ps d = sql_update u True ps d"
| "sql_exec u months DeleteById ps d = sql_delete u ps d"
| "sql_exec u months BudgetSummary ps d = resolved (map summary_row (budget_summary (table d))) 0 d"
| "sql_exec u months Overview ps d = resolved [overview_row (table d)] 0 d"
| "sql_exec u months BudgetTypes ps d = resolved (distinct_budget_types (table d)) 0 d"
| "sql_exec u months MonthlySummary ps d = resolved (months MonthlySummary ps (table d)) 0 d"
| "sql_exec u months CategoryBreakdown ps d = resolved (months CategoryBreakdown ps (table d)) 0 d"
| "sql_exec u months Trends ps d = resolved (months Trends ps (table d)) 0 d"
| "sql_exec u months AvailableMonths ps d = resolved (months AvailableMonths ps (table d)) 0 d"

text \<open>The server: the handlers over this engine, in one dialect.\<close>

definition server :: "bool \<Rightarrow> month_queries \<Rightarrow> request \<Rightarrow> db \<Rightarrow> response \<times> db" where
  "server u months req d = handle u (sql_exec u months) req d"

section \<open>Observing the engine calls, and the shape of a response\<close>

text \<open>
  An engine that also records, in order, how each call ended: \<open>Some m\<close> for a call that
  rejected with message \<open>m\<close>, \<open>None\<close> for one that resolved.
\<close>

definition logged :: "'db engine \<Rightarrow> ('db \<times> string option list) engine" where
  "logged E st ps s =
     (case E st ps (fst s) of
        (Inl m, d') \<Rightarrow> (Inl m, (d', snd s @ [Some m]))
      | (Inr r, d') \<Rightarrow> (Inr r, (d', snd s @ [None])))"

text \<open>
  The envelope \<open>{success, data, error?}\<close>: a boolean \<open>success\<close> field, a \<open>data\<close> field
  when it is true, and an \<open>error\<close> field only when it is false.
\<close>

definition envelope :: "response \<Rightarrow> bool" where
  "envelope r =
     (case map_of (json_fields r) ''success'' of
        Some (JBool ok) \<Rightarrow> (ok \<longrightarrow> has_field r ''data'') \<and> (has_field r ''error'' \<longrightarrow> \<not> ok)
      | _ \<Rightarrow> False)"

section \<open>Names used in the statements\<close>


text \<open>
  What the list request asks of a row: each filter that is given and not empty holds. A
  date is in range as values compare (\<open>sql_le\<close>); the budget type is the parameter.
\<close>

definition satisfies :: "list_query \<Rightarrow> row \<Rightarrow> bool" where
  "satisfies q r =
     ((case q_budget_type q of None \<Rightarrow> True | Some s \<Rightarrow> s = [] \<or> r_budget_type r = JStr s) \<and>
      (case q_start_date q of None \<Rightarrow> True | Some s \<Rightarrow> s = [] \<or> sql_le (JStr s) (r_date r)) \<and>
      (case q_end_date q of None \<Rightarrow> True | Some s \<Rightarrow> s = [] \<or> sql_le (r_date r) (JStr s)))"

text \<open>Ordered by date, descending.\<close>

definition date_desc :: "row list \<Rightarrow> bool" where
  "date_desc rs = sorted_wrt (\<lambda>a b. sql_key (r_date b) \<le> sql_key (r_date a)) rs"

text \<open>The conditions and values the list handler collects.\<close>

definition list_filters :: "list_query \<Rightarrow> cond list \<times> jsval list" where
  "list_filters q =
     add_filter DateLe (q_end_date q)
       (add_filter DateGe (q_start_date q)
         (add_filter BudgetTypeEq (q_budget_type q) ([], [])))"

text \<open>
  The summary as the specification words it: the amounts of the transactions with a budget type, and
  their count, sum, minimum and maximum; and the order by total, descending.
\<close>

definition amounts_of :: "jsval \<Rightarrow> row list \<Rightarrow> rat list" where
  "amounts_of k t = map r_amount (filter (\<lambda>r. r_budget_type r = k) t)"

definition agg_of :: "rat list \<Rightarrow> agg" where
  "agg_of xs = \<lparr>g_count = length xs, g_sum = sum_list xs, g_min = Min (set xs), g_max = Max (set xs)\<rparr>"

definition total_desc :: "(jsval \<times> agg) list \<Rightarrow> bool" where
  "total_desc gs = sorted_wrt (\<lambda>g h. g_sum (snd h) \<le> g_sum (snd g)) gs"


text \<open>The bodies of the 201 and of the successful PUT response around a row.\<close>

definition created_body :: "row \<Rightarrow> jsobj" where
  "created_body r =
     [(''success'', JBool True), (''data'', JObj (row_json r)),
      (''message'', JStr ''Transaction created successfully'')]"

definition updated_body :: "row \<Rightarrow> jsobj" where
  "updated_body r =
     [(''success'', JBool True), (''data'', JObj (row_json r)),
      (''message'', JStr ''Transaction updated successfully'')]"

text \<open>Example data: an engine with no month rows, two databases and some request bodies.\<close>

definition no_months :: month_queries where
  "no_months st ps t = []"

definition db_empty :: db where
  "db_empty = \<lparr>table = [], seq = 0, clock = 0\<rparr>"

definition row_unpaid :: row where
  "row_unpaid =
     \<lparr>r_id = 1, r_date = JStr ''2024-01-15'', r_name = JStr ''Lunch'',
      r_description = JNull, r_budget_type = JStr ''Food'', r_amount = 12,
      r_payedOff = JBool False, r_created_at = 0\<rparr>"

definition db_one :: db where
  "db_one = \<lparr>table = [row_unpaid], seq = 1, clock = 5\<rparr>"

definition body_rent :: jsobj where
  "body_rent =
     [(''date'', JStr ''2024-02-01''), (''amount'', JNum (Fin 20)),
      (''budget_type'', JStr ''Rent'')]"

definition body_abc_only :: jsobj where
  "body_abc_only = [(''amount'', JStr ''abc'')]"

definition body_abc :: jsobj where
  "body_abc =
     [(''date'', JStr ''2024-02-01''), (''amount'', JStr ''abc''),
      (''budget_type'', JStr ''Rent'')]"

text \<open>A table of three rows and a filtered list request.\<close>

definition row_snack :: row where
  "row_snack =
     \<lparr>r_id = 3, r_date = JStr ''2024-01-20'', r_name = JNull,
      r_description = JStr ''crisps'', r_budget_type = JStr ''Food'', r_amount = 8,
      r_payedOff = JBool True, r_created_at = 2\<rparr>"

definition row_rent :: row where
  "row_rent =
     \<lparr>r_id = 2, r_date = JStr ''2024-02-01'', r_name = JStr ''Flat'',
      r_description = JNull, r_budget_type = JStr ''Rent'', r_amount = 900,
      r_payedOff = JBool True, r_created_at = 1\<rparr>"

definition db_three :: db where
  "db_three = \<lparr>table = [row_unpaid, row_rent, row_snack], seq = 3, clock = 9\<rparr>"

definition q_food :: list_query where
  "q_food = \<lparr>q_budget_type = Some ''Food'', q_start_date = Some ''2024-01-01'',
              q_end_date = Some ''2024-01-31'', q_limit = Some ''1'', q_offset = None\<rparr>"

text \<open>
  List requests with an empty \<open>budget_type=\<close> and with \<open>limit=-1\<close>, and an engine
  whose delete fails.
\<close>

definition q_blank_type :: list_query where
  "q_blank_type = \<lparr>q_budget_type = Some [], q_start_date = None, q_end_date = None,
                    q_limit = None, q_offset = None\<rparr>"

definition q_unbounded :: list_query where
  "q_unbounded = \<lparr>q_budget_type = None, q_start_date = None, q_end_date = None,
                   q_limit = Some ''-1'', q_offset = None\<rparr>"

definition flaky :: "db engine" where
  "flaky st ps d =
     (if st = DeleteById then (Inl ''disk I/O error'', d) else sql_exec True no_months st ps d)"

section \<open>Properties\<close>

subsection \<open>Shared facts\<close>

lemma status_failure: "status (failure n m) = n"
  by (simp add: failure_def respond_def)

lemma status_respond: "status (respond n b) = n"
  by (simp add: respond_def)

lemma validate_None:
  "validate b = None \<longleftrightarrow>
     truthy (js_get b ''date'') \<and> truthy (js_get b ''amount'') \<and>
     truthy (js_get b ''budget_type'') \<and> \<not> isNaN (parseFloat (js_get b ''amount''))"
  by (auto simp add: validate_def)

lemma parseFloat_abc: "parseFloat_str ''abc'' = NaN"
  by code_simp

lemma txn_params_nth:
  "length (txn_params b) = 6"
  "txn_params b ! 0 = js_get b ''date''"
  "txn_params b ! Suc 0 = js_or (js_get b ''name'') JNull"
  "txn_params b ! 2 = js_or (js_get b ''description'') JNull"
  "txn_params b ! 3 = js_get b ''budget_type''"
  "txn_params b ! 4 = JNum (parseFloat (js_get b ''amount''))"
  "txn_params b ! 5 = payedOffValue (js_get b ''payedOff'')"
  by (simp_all add: txn_params_def numeral_eq_Suc)

lemma awaiting_rejected: "awaiting (rejected m d) k = (failure 500 m, d)"
  by (simp add: awaiting_def rejected_def)

lemma awaiting_resolved:
  "awaiting (resolved rs n d) k = k \<lparr>rows = rs, lastID = seq d, changes = n\<rparr> d"
  by (simp add: awaiting_def resolved_def)

lemma truthy_not_null: "truthy v \<Longrightarrow> \<not> is_null v"
  by (cases v rule: truthy.cases) (simp_all add: is_null_def)

lemma select_new_row:
  assumes "Suc (seq d) \<notin> set (map r_id (table d))"
  shows "filter (\<lambda>r. r_id r = Suc (seq d)) (table d @ [new_row ps a d]) = [new_row ps a d]"
proof -
  have "filter (\<lambda>r. r_id r = Suc (seq d)) (table d) = []"
    using assms by (force simp add: filter_empty_conv)
  then show ?thesis by (simp add: new_row_def)
qed

lemma post_created:
  assumes "status (fst (server u months (PostTransaction b) d)) = 201"
  shows "\<exists>a. validate b = None \<and> parseFloat (js_get b ''amount'') = Fin a \<and>
           Suc (seq d) \<notin> set (map r_id (table d)) \<and>
           server u months (PostTransaction b) d =
             (respond 201 (created_body (new_row (txn_params b) a d)),
              d\<lparr>table := table d @ [new_row (txn_params b) a d], seq := Suc (seq d)\<rparr>)"
proof -
  have v: "validate b = None"
    using assms
    by (cases "validate b") (auto simp add: server_def post_transaction_def validate_def status_failure split: if_splits)
  then have nn: "\<not> is_null (js_get b ''date'')"
    by (simp add: validate_None truthy_not_null)
  obtain a where a: "parseFloat (js_get b ''amount'') = Fin a"
    using assms v nn
    by (cases "parseFloat (js_get b ''amount'')")
       (auto simp add: server_def post_transaction_def sql_insert_def txn_params_nth
          awaiting_rejected status_failure split: if_splits)
  have fresh: "Suc (seq d) \<notin> set (map r_id (table d))"
    using assms v nn a
    by (auto simp add: server_def post_transaction_def sql_insert_def txn_params_nth
          awaiting_rejected status_failure split: if_splits)
  have "server u months (PostTransaction b) d =
             (respond 201 (created_body (new_row (txn_params b) a d)),
              d\<lparr>table := table d @ [new_row (txn_params b) a d], seq := Suc (seq d)\<rparr>)"
    using v nn a fresh select_new_row[OF fresh, of "txn_params b" a]
    by (simp add: server_def post_transaction_def sql_insert_def txn_params_nth
          awaiting_resolved sql_select_by_id_def first_row_json_def first_row_def created_body_def)
  with v a fresh show ?thesis by blast
qed

lemma set_columns_txn:
  "set_columns (txn_params b @ [x]) a r =
     r\<lparr>r_date := js_get b ''date'', r_name := js_or (js_get b ''name'') JNull,
       r_description := js_or (js_get b ''description'') JNull,
       r_budget_type := js_get b ''budget_type'', r_amount := a,
       r_payedOff := payedOffValue (js_get b ''payedOff'')\<rparr>"
  by (simp add: set_columns_def txn_params_def)

lemma r_id_set_columns: "r_id (set_columns ps a r) = r_id r"
  by (simp add: set_columns_def)

lemma filter_id_updated:
  "filter (\<lambda>r. r_id r = i) (map (\<lambda>r. if r_id r = i then set_columns ps a r else r) t) =
   map (set_columns ps a) (filter (\<lambda>r. r_id r = i) t)"
  by (induction t) (simp_all add: r_id_set_columns)

lemma put_updated:
  assumes "status (fst (server u months (PutTransaction ident b) d)) = 200"
  shows "\<exists>a i r0 rest. validate b = None \<and> parseFloat (js_get b ''amount'') = Fin a \<and>
           id_of_string ident = Some i \<and>
           filter (\<lambda>r. r_id r = i) (table d) = r0 # rest \<and>
           server u months (PutTransaction ident b) d =
             (respond 200 (updated_body (set_columns (txn_params b @ [JStr ident]) a r0)),
              d\<lparr>table := map (\<lambda>r. if r_id r = i
                                  then set_columns (txn_params b @ [JStr ident]) a r else r)
                              (table d)\<rparr>)"
proof -
  let ?ps = "txn_params b @ [JStr ident]"
  have len: "length ?ps = 7" by (simp add: txn_params_nth)
  have p0: "?ps ! 0 = js_get b ''date''" by (simp add: txn_params_def)
  have p4: "?ps ! 4 = JNum (parseFloat (js_get b ''amount''))" by (simp add: txn_params_def)
  have p6: "?ps ! 6 = JStr ident" by (simp add: txn_params_def)
  have v: "validate b = None"
    using assms
    by (cases "validate b") (auto simp add: server_def put_transaction_def validate_def status_failure split: if_splits)
  then have nn: "\<not> is_null (js_get b ''date'')"
    by (simp add: validate_None truthy_not_null)
  obtain a where a: "parseFloat (js_get b ''amount'') = Fin a"
    using assms v nn
    by (cases "parseFloat (js_get b ''amount'')")
       (auto simp add: server_def put_transaction_def sql_update_def len p0 p4 p6
          awaiting_rejected status_failure split: if_splits)
  obtain i where i: "id_of_string ident = Some i"
    using assms v nn a
    by (cases "id_of_string ident")
       (auto simp add: server_def put_transaction_def sql_update_def sql_select_by_id_def
          len p0 p4 p6 awaiting_rejected awaiting_resolved status_failure split: if_splits)
  obtain r0 rest where hit: "filter (\<lambda>r. r_id r = i) (table d) = r0 # rest"
    using assms v nn a i
    by (cases "filter (\<lambda>r. r_id r = i) (table d)")
       (auto simp add: server_def put_transaction_def sql_update_def sql_select_by_id_def
          len p0 p4 p6 awaiting_rejected awaiting_resolved status_failure filter_id_updated
          split: if_splits)
  have "server u months (PutTransaction ident b) d =
             (respond 200 (updated_body (set_columns ?ps a r0)),
              d\<lparr>table := map (\<lambda>r. if r_id r = i then set_columns ?ps a r else r) (table d)\<rparr>)"
    using v nn a i hit
    by (simp add: server_def put_transaction_def sql_update_def sql_select_by_id_def
          len txn_params_nth(1) p0 p4 p6 awaiting_resolved filter_id_updated first_row_json_def first_row_def
          updated_body_def)
  with v a i hit show ?thesis by blast
qed


lemma missing_is_falsy: "map_of b k = None \<Longrightarrow> \<not> truthy (js_get b k)"
  by (simp add: js_get_def)

subsection \<open>Validation\<close>


text \<open>
  C10. A body whose \<open>amount\<close> is the JSON number 0 fails the required-field check, which
  reads 0 as absent: POST and PUT answer 400 with the missing-fields message, whatever the
  other fields are. The check is the first of \<open>validate\<close>, so the numeric check is not
  reached; the answer is the same for every engine and the database state is returned as it
  was, so no statement is run.
\<close>

theorem zero_amount_missing_fields:
  assumes "js_get b ''amount'' = JNum (Fin 0)"
  shows "validate b = Some (failure 400 missing_fields_msg) \<and>
         post_transaction u E b d = (failure 400 missing_fields_msg, d) \<and>
         put_transaction u E i b d = (failure 400 missing_fields_msg, d)"
  using assms by (simp add: validate_def post_transaction_def put_transaction_def)

theorem zero_amount_missing_fields_witness:
  "js_get [(''date'', JStr ''2024-01-15''), (''amount'', JNum (Fin 0)),
           (''budget_type'', JStr ''Food'')] ''amount'' = JNum (Fin 0) \<and>
   post_transaction True (sql_exec True (\<lambda>st ps t. []))
     [(''date'', JStr ''2024-01-15''), (''amount'', JNum (Fin 0)),
      (''budget_type'', JStr ''Food'')] \<lparr>table = [], seq = 0, clock = 0\<rparr>
     = (failure 400 missing_fields_msg, \<lparr>table = [], seq = 0, clock = 0\<rparr>) \<and>
   put_transaction False (sql_exec False (\<lambda>st ps t. [])) ''1''
     [(''date'', JStr ''2024-01-15''), (''amount'', JNum (Fin 0)),
      (''budget_type'', JStr ''Food'')] \<lparr>table = [], seq = 0, clock = 0\<rparr>
     = (failure 400 missing_fields_msg, \<lparr>table = [], seq = 0, clock = 0\<rparr>)"
  using zero_amount_missing_fields
    [where b = "[(''date'', JStr ''2024-01-15''), (''amount'', JNum (Fin 0)),
          (''budget_type'', JStr ''Food'')]" and u = True
       and E = "sql_exec True (\<lambda>st ps t. [])" and d = "\<lparr>table = [], seq = 0, clock = 0\<rparr>"]
    zero_amount_missing_fields
    [where b = "[(''date'', JStr ''2024-01-15''), (''amount'', JNum (Fin 0)),
          (''budget_type'', JStr ''Food'')]" and u = False and i = "''1''"
       and E = "sql_exec False (\<lambda>st ps t. [])" and d = "\<lparr>table = [], seq = 0, clock = 0\<rparr>"]
  by (simp add: js_get_def)

text \<open>
  C3, as amended. A field the body lacks reads as undefined, which is falsy. POST and PUT
  answer 400 with the missing-fields message whenever \<open>date\<close>, \<open>amount\<close> or
  \<open>budget_type\<close> is falsy, so whenever the body lacks one of them, and 400 with
  \<open>Amount must be a valid number\<close> whenever all three are present (truthy) and
  \<open>parseFloat\<close> of the amount is \<open>NaN\<close>. In both cases the answer is the same for
  every engine and the database state is returned as it was: no statement is run, so no row
  is inserted or modified.
\<close>

theorem validation_errors:
  "(map_of b k = None \<longrightarrow> \<not> truthy (js_get b k)) \<and>
   (\<not> truthy (js_get b ''date'') \<or> \<not> truthy (js_get b ''amount'')
      \<or> \<not> truthy (js_get b ''budget_type'') \<longrightarrow>
      post_transaction u E b d = (failure 400 missing_fields_msg, d) \<and>
      put_transaction u E i b d = (failure 400 missing_fields_msg, d)) \<and>
   (truthy (js_get b ''date'') \<and> truthy (js_get b ''amount'')
      \<and> truthy (js_get b ''budget_type'') \<and> isNaN (parseFloat (js_get b ''amount'')) \<longrightarrow>
      post_transaction u E b d = (failure 400 invalid_amount_msg, d) \<and>
      put_transaction u E i b d = (failure 400 invalid_amount_msg, d))"
  by (auto simp add: post_transaction_def put_transaction_def validate_def missing_is_falsy)

theorem validation_errors_witness:
  "map_of body_abc_only ''date'' = None \<and>
   post_transaction True (sql_exec True no_months) body_abc_only db_one =
     (failure 400 missing_fields_msg, db_one) \<and>
   put_transaction True (sql_exec True no_months) ''1'' body_abc_only db_one =
     (failure 400 missing_fields_msg, db_one) \<and>
   truthy (js_get body_abc ''amount'') \<and> isNaN (parseFloat (js_get body_abc ''amount'')) \<and>
   post_transaction True (sql_exec True no_months) body_abc db_one =
     (failure 400 invalid_amount_msg, db_one) \<and>
   put_transaction True (sql_exec True no_months) ''1'' body_abc db_one =
     (failure 400 invalid_amount_msg, db_one)"
proof -
  have m: "map_of body_abc_only ''date'' = None"
    by (simp add: body_abc_only_def)
  have f: "\<not> truthy (js_get body_abc_only ''date'')"
    using validation_errors[where b = body_abc_only and k = "''date''" and u = True
            and E = "sql_exec True no_months" and d = db_one and i = "''1''"] m
    by blast
  have t: "truthy (js_get body_abc ''date'') \<and> truthy (js_get body_abc ''amount'') \<and>
           truthy (js_get body_abc ''budget_type'') \<and>
           isNaN (parseFloat (js_get body_abc ''amount''))"
    by (simp add: body_abc_def js_get_def parseFloat_abc)
  from validation_errors[where b = body_abc_only and k = "''date''" and u = True
            and E = "sql_exec True no_months" and d = db_one and i = "''1''"]
       validation_errors[where b = body_abc and k = "''date''" and u = True
            and E = "sql_exec True no_months" and d = db_one and i = "''1''"] m f t
  show ?thesis by blast
qed

text \<open>
  C3, as stated, fails: the body \<open>{"amount": "abc"}\<close> holds an amount that does not parse
  as a number, yet POST and PUT answer with the missing-fields message, because the
  required-field check comes first and \<open>date\<close> is missing.
\<close>

theorem invalid_amount_message_counterexample:
  "truthy (js_get body_abc_only ''amount'') \<and>
   isNaN (parseFloat (js_get body_abc_only ''amount'')) \<and>
   fst (post_transaction True (sql_exec True no_months) body_abc_only db_one) =
     failure 400 missing_fields_msg \<and>
   fst (put_transaction True (sql_exec True no_months) ''1'' body_abc_only db_one) =
     failure 400 missing_fields_msg \<and>
   failure 400 missing_fields_msg \<noteq> failure 400 invalid_amount_msg"
  by (simp add: body_abc_only_def js_get_def parseFloat_abc post_transaction_def
        put_transaction_def validate_def failure_def respond_def missing_fields_msg_def
        invalid_amount_msg_def)

subsection \<open>What is stored\<close>

text \<open>
  C1: the server at the failing input. \<open>POST /api/transactions\<close> with the body
  \<open>{"date": "2024-01-15", "amount": -5, "budget_type": "Food"}\<close> on an empty table (SQLite
  dialect) answers 201 and stores a row whose amount is \<open>-5\<close>: neither check of
  \<open>validate\<close> looks at the sign.
\<close>

theorem negative_amount_stored:
  "server True (\<lambda>st ps t. [])
     (PostTransaction [(''date'', JStr ''2024-01-15''), (''amount'', JNum (Fin (- 5))),
                       (''budget_type'', JStr ''Food'')])
     \<lparr>table = [], seq = 0, clock = 0\<rparr> =
   (respond 201
      (created_body \<lparr>r_id = 1, r_date = JStr ''2024-01-15'', r_name = JNull,
         r_description = JNull, r_budget_type = JStr ''Food'', r_amount = - 5,
         r_payedOff = JBool True, r_created_at = 0\<rparr>),
    \<lparr>table = [\<lparr>r_id = 1, r_date = JStr ''2024-01-15'', r_name = JNull,
         r_description = JNull, r_budget_type = JStr ''Food'', r_amount = - 5,
         r_payedOff = JBool True, r_created_at = 0\<rparr>], seq = 1, clock = 0\<rparr>)"
  by (simp add: server_def post_transaction_def validate_def js_get_def txn_params_def
        js_or_def payedOffValue_def sql_insert_def is_null_def new_row_def awaiting_def
        resolved_def sql_select_by_id_def first_row_json_def first_row_def created_body_def)

text \<open>
  C9. When \<open>payedOff\<close> is omitted from an accepted body, the stored flag is true: the row
  a 201 POST appends has \<open>payedOff = true\<close>, and after a 200 PUT every row with the id of
  the URL has \<open>payedOff = true\<close>, whatever it held before; the ids of the table are
  unchanged.
\<close>

theorem payedOff_default_true:
  assumes "js_get b ''payedOff'' = JUndefined"
  shows "(status (fst (server u months (PostTransaction b) d)) = 201 \<longrightarrow>
           (\<exists>r. table (snd (server u months (PostTransaction b) d)) = table d @ [r] \<and>
                r_payedOff r = JBool True)) \<and>
         (status (fst (server u months (PutTransaction ident b) d)) = 200 \<longrightarrow>
           (\<exists>i. id_of_string ident = Some i \<and> (\<exists>r \<in> set (table d). r_id r = i) \<and>
                map r_id (table (snd (server u months (PutTransaction ident b) d))) =
                  map r_id (table d) \<and>
                (\<forall>r \<in> set (table (snd (server u months (PutTransaction ident b) d))).
                    r_id r = i \<longrightarrow> r_payedOff r = JBool True)))"
proof (intro conjI impI)
  assume "status (fst (server u months (PostTransaction b) d)) = 201"
  from post_created[OF this] obtain a where
    "server u months (PostTransaction b) d =
       (respond 201 (created_body (new_row (txn_params b) a d)),
        d\<lparr>table := table d @ [new_row (txn_params b) a d], seq := Suc (seq d)\<rparr>)"
    by blast
  moreover have "r_payedOff (new_row (txn_params b) a d) = JBool True"
    using assms by (simp add: new_row_def txn_params_nth payedOffValue_def)
  ultimately show "\<exists>r. table (snd (server u months (PostTransaction b) d)) = table d @ [r] \<and>
                r_payedOff r = JBool True"
    by simp
next
  assume "status (fst (server u months (PutTransaction ident b) d)) = 200"
  from put_updated[OF this] obtain a i r0 rest where
    i: "id_of_string ident = Some i" and
    hit: "filter (\<lambda>r. r_id r = i) (table d) = r0 # rest" and
    eq: "server u months (PutTransaction ident b) d =
             (respond 200 (updated_body (set_columns (txn_params b @ [JStr ident]) a r0)),
              d\<lparr>table := map (\<lambda>r. if r_id r = i
                                  then set_columns (txn_params b @ [JStr ident]) a r else r)
                              (table d)\<rparr>)"
    by blast
  have "r0 \<in> set (filter (\<lambda>r. r_id r = i) (table d))" by (simp add: hit)
  then have ex: "\<exists>r \<in> set (table d). r_id r = i" by auto
  have po: "\<And>r. r_payedOff (set_columns (txn_params b @ [JStr ident]) a r) = JBool True"
    using assms by (simp add: set_columns_txn payedOffValue_def)
  have ids: "map r_id (table (snd (server u months (PutTransaction ident b) d))) =
                  map r_id (table d)"
    by (simp add: eq r_id_set_columns cong: map_cong)
  have all: "\<forall>r \<in> set (table (snd (server u months (PutTransaction ident b) d))).
                    r_id r = i \<longrightarrow> r_payedOff r = JBool True"
    by (auto simp add: eq po)
  from i ex ids all
  show "\<exists>i. id_of_string ident = Some i \<and> (\<exists>r \<in> set (table d). r_id r = i) \<and>
                map r_id (table (snd (server u months (PutTransaction ident b) d))) =
                  map r_id (table d) \<and>
                (\<forall>r \<in> set (table (snd (server u months (PutTransaction ident b) d))).
                    r_id r = i \<longrightarrow> r_payedOff r = JBool True)"
    by blast
qed

theorem payedOff_default_true_witness:
  "js_get body_rent ''payedOff'' = JUndefined \<and>
   status (fst (server True no_months (PostTransaction body_rent) db_empty)) = 201 \<and>
   (\<exists>r. table (snd (server True no_months (PostTransaction body_rent) db_empty)) =
          table db_empty @ [r] \<and> r_payedOff r = JBool True) \<and>
   r_payedOff row_unpaid = JBool False \<and>
   status (fst (server False no_months (PutTransaction ''1'' body_rent) db_one)) = 200 \<and>
   (\<exists>i. id_of_string ''1'' = Some i \<and> (\<exists>r \<in> set (table db_one). r_id r = i) \<and>
        map r_id (table (snd (server False no_months (PutTransaction ''1'' body_rent) db_one))) =
          map r_id (table db_one) \<and>
        (\<forall>r \<in> set (table (snd (server False no_months (PutTransaction ''1'' body_rent) db_one))).
            r_id r = i \<longrightarrow> r_payedOff r = JBool True))"
proof -
  have h: "js_get body_rent ''payedOff'' = JUndefined"
    by (simp add: js_get_def body_rent_def)
  have s1: "status (fst (server True no_months (PostTransaction body_rent) db_empty)) = 201"
    by code_simp
  have s2: "status (fst (server False no_months (PutTransaction ''1'' body_rent) db_one)) = 200"
    by code_simp
  have u: "r_payedOff row_unpaid = JBool False"
    by (simp add: row_unpaid_def)
  from payedOff_default_true[OF h, where u = True and months = no_months and d = db_empty]
       payedOff_default_true[OF h, where u = False and months = no_months and d = db_one
         and ident = "''1''"] s1 s2 h u
  show ?thesis by blast
qed

subsection \<open>Failures of the engine\<close>

lemma query_failure_logged:
  assumes "Some m \<in> set (snd (snd (handle u (logged E) req (d, []))))"
  shows "fst (handle u (logged E) req (d, [])) = failure 500 m"
proof (cases req)
  case (GetTransactions q)
  with assms show ?thesis
    by (auto simp add: get_transactions_def awaiting_def logged_def Let_def split: prod.splits sum.splits)
next
  case (GetTransaction i)
  with assms show ?thesis
    by (auto simp add: get_transaction_def awaiting_def logged_def split: prod.splits sum.splits if_splits)
next
  case (PostTransaction b)
  with assms show ?thesis
    by (auto simp add: post_transaction_def awaiting_def logged_def split: prod.splits sum.splits if_splits option.splits)
next
  case (PutTransaction i b)
  with assms show ?thesis
    by (auto simp add: put_transaction_def awaiting_def logged_def split: prod.splits sum.splits if_splits option.splits)
next
  case (DeleteTransaction i)
  with assms show ?thesis
    by (auto simp add: delete_transaction_def awaiting_def logged_def split: prod.splits sum.splits if_splits)
next
  case GetSummaryBudgetTypes
  with assms show ?thesis
    by (auto simp add: summary_budget_types_def rows_route_def awaiting_def logged_def split: prod.splits sum.splits)
next
  case GetSummaryMonthly
  with assms show ?thesis
    by (auto simp add: summary_monthly_def rows_route_def awaiting_def logged_def split: prod.splits sum.splits)
next
  case (GetCategoryBreakdown mo)
  with assms show ?thesis
    by (auto simp add: category_breakdown_def rows_route_def awaiting_def logged_def split: prod.splits sum.splits option.splits if_splits)
next
  case GetTrends
  with assms show ?thesis
    by (auto simp add: trends_def rows_route_def awaiting_def logged_def split: prod.splits sum.splits)
next
  case GetStatsOverview
  with assms show ?thesis
    by (auto simp add: stats_overview_def awaiting_def logged_def split: prod.splits sum.splits)
next
  case GetAvailableMonths
  with assms show ?thesis
    by (auto simp add: available_months_def column_route_def awaiting_def logged_def split: prod.splits sum.splits)
next
  case GetBudgetTypes
  with assms show ?thesis
    by (auto simp add: budget_types_def column_route_def awaiting_def logged_def split: prod.splits sum.splits)
next
  case GetHealth
  with assms show ?thesis by simp
qed

lemma logged_same:
  "fst (handle u (logged E) req (d, l)) = fst (handle u E req d) \<and>
   fst (snd (handle u (logged E) req (d, l))) = snd (handle u E req d)"
proof (cases req)
  case (GetTransactions q)
  then show ?thesis
    by (auto simp add: get_transactions_def awaiting_def logged_def Let_def split: prod.splits sum.splits)
next
  case (GetTransaction i)
  then show ?thesis
    by (auto simp add: get_transaction_def awaiting_def logged_def split: prod.splits sum.splits if_splits)
next
  case (PostTransaction b)
  then show ?thesis
    by (auto simp add: post_transaction_def awaiting_def logged_def split: prod.splits sum.splits if_splits option.splits)
next
  case (PutTransaction i b)
  then show ?thesis
    by (auto simp add: put_transaction_def awaiting_def logged_def split: prod.splits sum.splits if_splits option.splits)
next
  case (DeleteTransaction i)
  then show ?thesis
    by (auto simp add: delete_transaction_def awaiting_def logged_def split: prod.splits sum.splits if_splits)
next
  case GetSummaryBudgetTypes
  then show ?thesis
    by (auto simp add: summary_budget_types_def rows_route_def awaiting_def logged_def split: prod.splits sum.splits)
next
  case GetSummaryMonthly
  then show ?thesis
    by (auto simp add: summary_monthly_def rows_route_def awaiting_def logged_def split: prod.splits sum.splits)
next
  case (GetCategoryBreakdown mo)
  then show ?thesis
    by (auto simp add: category_breakdown_def rows_route_def awaiting_def logged_def split: prod.splits sum.splits option.splits if_splits)
next
  case GetTrends
  then show ?thesis
    by (auto simp add: trends_def rows_route_def awaiting_def logged_def split: prod.splits sum.splits)
next
  case GetStatsOverview
  then show ?thesis
    by (auto simp add: stats_overview_def awaiting_def logged_def split: prod.splits sum.splits)
next
  case GetAvailableMonths
  then show ?thesis
    by (auto simp add: available_months_def column_route_def awaiting_def logged_def split: prod.splits sum.splits)
next
  case GetBudgetTypes
  then show ?thesis
    by (auto simp add: budget_types_def column_route_def awaiting_def logged_def split: prod.splits sum.splits)
next
  case GetHealth
  then show ?thesis by simp
qed

text \<open>
  C4. On every route, whenever a call to the engine made while handling the request rejects
  with an error of message \<open>m\<close>, the response is 500 with the body
  \<open>{success: false, error: m}\<close>. The calls are observed through \<open>logged\<close>, which changes
  neither the response nor the state (\<open>logged_same\<close>); the engine is arbitrary. The health
  check makes no call.
\<close>

theorem query_failure_500:
  assumes "Some m \<in> set (snd (snd (handle u (logged E) req (d, []))))"
  shows "fst (handle u E req d) = failure 500 m \<and> status (fst (handle u E req d)) = 500"
  using query_failure_logged[OF assms] logged_same[of u E req d "[]"]
  by (simp add: status_failure)

theorem query_failure_500_witness:
  "Some ''LIMIT must not be negative'' \<in>
     set (snd (snd (handle False (logged (sql_exec False no_months))
                      (GetTransactions q_unbounded) (db_one, [])))) \<and>
   fst (handle False (sql_exec False no_months) (GetTransactions q_unbounded) db_one) =
     failure 500 ''LIMIT must not be negative'' \<and>
   snd (snd (handle True (logged flaky) (DeleteTransaction ''1'') (db_one, []))) =
     [None, Some ''disk I/O error''] \<and>
   fst (handle True flaky (DeleteTransaction ''1'') db_one) = failure 500 ''disk I/O error''"
proof -
  have l1: "snd (snd (handle False (logged (sql_exec False no_months))
                      (GetTransactions q_unbounded) (db_one, []))) =
            [Some ''LIMIT must not be negative'']"
    by code_simp
  have l2: "snd (snd (handle True (logged flaky) (DeleteTransaction ''1'') (db_one, []))) =
     [None, Some ''disk I/O error'']"
    by code_simp
  have m1: "Some ''LIMIT must not be negative'' \<in>
     set (snd (snd (handle False (logged (sql_exec False no_months))
                      (GetTransactions q_unbounded) (db_one, []))))"
    unfolding l1 by simp
  have m2: "Some ''disk I/O error'' \<in>
     set (snd (snd (handle True (logged flaky) (DeleteTransaction ''1'') (db_one, []))))"
    unfolding l2 by simp
  from query_failure_500[OF m1] query_failure_500[OF m2] m1 l2
  show ?thesis by simp
qed

subsection \<open>The envelope\<close>

lemma envelope_failure: "envelope (failure n m)"
  by (simp add: envelope_def failure_def respond_def json_fields_def has_field_def)

lemma envelope_data:
  assumes "v \<noteq> JUndefined" "map_of rest ''error'' = None"
  shows "envelope (respond n ((''success'', JBool True) # (''data'', v) # rest))"
proof -
  have "map_of (filter (\<lambda>kv. snd kv \<noteq> JUndefined) rest) ''error'' = None"
    using assms(2) by (induction rest) (auto split: if_splits)
  then show ?thesis
    using assms(1)
    by (simp add: envelope_def respond_def json_fields_def has_field_def)
qed

lemma envelope_awaiting:
  assumes "\<And>res d'. r = (Inr res, d') \<Longrightarrow> envelope (fst (k res d'))"
  shows "envelope (fst (awaiting r k))"
  using assms by (cases r) (auto simp add: awaiting_def envelope_failure split: sum.splits)

lemma first_row_json_defined: "rs \<noteq> [] \<Longrightarrow> first_row_json rs \<noteq> JUndefined"
  by (cases rs) (simp_all add: first_row_json_def first_row_def)

lemma envelope_rows_route: "envelope (fst (rows_route E st ps d))"
  unfolding rows_route_def
  by (rule envelope_awaiting) (simp add: envelope_data)

lemma envelope_column_route: "envelope (fst (column_route E st k d))"
  unfolding column_route_def
  by (rule envelope_awaiting) (simp add: envelope_data)

lemma envelope_get_transactions: "envelope (fst (get_transactions E q d))"
  unfolding get_transactions_def Let_def
  by (rule envelope_awaiting) (simp add: envelope_data)

lemma envelope_get_transaction: "envelope (fst (get_transaction E i d))"
  unfolding get_transaction_def
  by (rule envelope_awaiting) (simp add: envelope_data envelope_failure first_row_json_defined)

lemma envelope_put: "envelope (fst (put_transaction u E i b d))"
proof (cases "validate b")
  case None
  show ?thesis
    unfolding put_transaction_def None
    by (auto intro!: envelope_awaiting simp add: envelope_data envelope_failure first_row_json_defined)
next
  case (Some r)
  then have "r = failure 400 missing_fields_msg \<or> r = failure 400 invalid_amount_msg"
    by (auto simp add: validate_def split: if_splits)
  then show ?thesis
    by (auto simp add: put_transaction_def Some envelope_failure)
qed

lemma envelope_delete: "envelope (fst (delete_transaction E i d))"
proof -
  have e: "\<And>n v. envelope (respond n [(''success'', JBool True),
              (''message'', JStr ''Transaction deleted successfully''), (''data'', JObj v)])"
    by (simp add: envelope_def respond_def json_fields_def has_field_def)
  show ?thesis
    unfolding delete_transaction_def
    by (auto intro!: envelope_awaiting simp add: e envelope_failure)
qed

lemma post_not_created:
  "status (fst (post_transaction u E b d)) \<noteq> 201 \<Longrightarrow>
     \<exists>n m. fst (post_transaction u E b d) = failure n m"
  by (auto simp add: post_transaction_def validate_def awaiting_def status_respond
        split: if_splits prod.splits sum.splits)

lemma envelope_post: "envelope (fst (server u months (PostTransaction b) d))"
proof (cases "status (fst (server u months (PostTransaction b) d)) = 201")
  case True
  from post_created[OF True] show ?thesis
    by (auto simp add: created_body_def envelope_data)
next
  case False
  then have "status (fst (post_transaction u (sql_exec u months) b d)) \<noteq> 201"
    by (simp add: server_def)
  from post_not_created[OF this] show ?thesis
    by (auto simp add: server_def envelope_failure)
qed

lemma envelope_overview: "envelope (fst (stats_overview (sql_exec u months) d))"
  by (simp add: stats_overview_def awaiting_resolved first_row_json_def first_row_def envelope_data)

text \<open>
  C2, as amended. Every response of a route other than the health check has the envelope: a
  boolean \<open>success\<close>, a \<open>data\<close> field when it is true, an \<open>error\<close> field only when it is
  false. The health check answers \<open>{success: true, message, database}\<close>, with neither
  \<open>data\<close> nor \<open>error\<close>.
\<close>

theorem envelope_except_health:
  "(req \<noteq> GetHealth \<longrightarrow> envelope (fst (server u months req d))) \<and>
   fst (server u months GetHealth d) = health u \<and>
   map_of (json_fields (health u)) ''success'' = Some (JBool True) \<and>
   \<not> has_field (health u) ''data'' \<and> \<not> has_field (health u) ''error''"
proof -
  have "envelope (fst (server u months req d))" if "req \<noteq> GetHealth"
  proof (cases req)
    case (PostTransaction b)
    then show ?thesis using envelope_post by simp
  next
    case GetHealth
    with that show ?thesis by simp
  next
    case (GetCategoryBreakdown mo)
    then show ?thesis
      by (auto simp add: server_def category_breakdown_def envelope_failure envelope_rows_route
            split: option.splits)
  qed (simp_all add: server_def envelope_get_transactions envelope_get_transaction envelope_put
         envelope_delete summary_budget_types_def summary_monthly_def trends_def
         available_months_def budget_types_def envelope_rows_route envelope_column_route
         envelope_overview)
  moreover have "fst (server u months GetHealth d) = health u"
    by (simp add: server_def)
  moreover have "map_of (json_fields (health u)) ''success'' = Some (JBool True) \<and>
      \<not> has_field (health u) ''data'' \<and> \<not> has_field (health u) ''error''"
    by (simp add: health_def respond_def json_fields_def has_field_def)
  ultimately show ?thesis by blast
qed

theorem envelope_except_health_witness:
  "PostTransaction body_rent \<noteq> GetHealth \<and>
   envelope (fst (server True no_months (PostTransaction body_rent) db_empty)) \<and>
   status (fst (server True no_months (PostTransaction body_rent) db_empty)) = 201 \<and>
   envelope (fst (server False no_months (GetTransaction ''7'') db_one)) \<and>
   status (fst (server False no_months (GetTransaction ''7'') db_one)) = 404"
proof -
  have s1: "status (fst (server True no_months (PostTransaction body_rent) db_empty)) = 201"
    by code_simp
  have s2: "status (fst (server False no_months (GetTransaction ''7'') db_one)) = 404"
    by code_simp
  from envelope_except_health[of "PostTransaction body_rent" True no_months db_empty]
       envelope_except_health[of "GetTransaction ''7''" False no_months db_one] s1 s2
  show ?thesis by simp
qed

text \<open>
  C2, as stated, fails on the health check: its response has \<open>success: true\<close> and no
  \<open>data\<close> field.
\<close>

theorem health_envelope_counterexample:
  "\<not> envelope (fst (server True no_months GetHealth db_empty))"
  by (simp add: server_def health_def envelope_def respond_def json_fields_def has_field_def)

subsection \<open>Create, fetch and delete\<close>

lemma js_get_Cons: "js_get ((k, v) # kvs) k' = (if k = k' then v else js_get kvs k')"
  by (simp add: js_get_def)





lemma get_not_a_number:
  assumes "id_of_string ident = None"
  shows "server u months (GetTransaction ident) d =
           (if u then (failure 404 not_found_msg, d)
            else (failure 500 ''invalid input syntax for type integer'', d))"
  using assms
  by (simp add: server_def get_transaction_def sql_select_by_id_def
        awaiting_resolved awaiting_rejected)






subsection \<open>The filtered list\<close>

lemma sql_eq_JStr: "sql_eq v (JStr s) \<longleftrightarrow> v = JStr s"
proof (cases v)
  case (JNum n)
  then show ?thesis by (cases n) (simp_all add: sql_eq_def is_null_def)
qed (auto simp add: sql_eq_def is_null_def)

lemma sql_le_JStr: "sql_le (JStr a) (JStr b) \<longleftrightarrow> a \<le> b"
  by (simp add: sql_le_def is_null_def)

lemma length_list_filters: "length (fst (list_filters q)) = length (snd (list_filters q))"
  by (simp add: list_filters_def add_filter_def split: option.splits)

lemma matching_list_filters:
  "matching (fst (list_filters q)) (snd (list_filters q)) t = filter (satisfies q) t"
  unfolding matching_def
  by (rule filter_cong[OF refl])
     (auto simp add: list_filters_def add_filter_def satisfies_def sql_eq_JStr
        split: option.splits)

lemma by_date_desc_props:
  "set (by_date_desc t) = set t" "length (by_date_desc t) = length t"
  "date_desc (by_date_desc t)"
proof -
  have "sorted (map (\<lambda>r. sql_key (r_date r)) (sort_key (\<lambda>r. sql_key (r_date r)) t))"
    by (rule sorted_sort_key)
  then have "sorted_wrt (\<lambda>a b. sql_key (r_date a) \<le> sql_key (r_date b))
               (sort_key (\<lambda>r. sql_key (r_date r)) t)"
    by (simp add: sorted_map)
  then show "date_desc (by_date_desc t)"
    by (simp add: date_desc_def by_date_desc_def sorted_wrt_rev)
qed (simp_all add: by_date_desc_def)

lemma page_props:
  "set (page l off xs) \<subseteq> set xs"
  "0 \<le> l \<Longrightarrow> length (page l off xs) \<le> nat l"
  "0 \<le> l \<Longrightarrow> page l off xs = take (nat l) (drop (nat off) xs)"
  "l < 0 \<Longrightarrow> page l off xs = drop (nat off) xs"
  "sorted_wrt P xs \<Longrightarrow> sorted_wrt P (page l off xs)"
  by (auto simp add: page_def Let_def dest: in_set_takeD in_set_dropD)

lemma int_param_Some: "int_param v = Some n \<Longrightarrow> v = JNum (Fin (of_int n))"
  by (cases v rule: int_param.cases) (auto split: if_splits)

lemma select_transactions_run:
  assumes "length cs = length vs"
  shows "sql_select_transactions u cs (vs @ [x, y]) d =
           (case (int_param x, int_param y) of
              (Some l, Some off) \<Rightarrow>
                if \<not> u \<and> l < 0 then rejected ''LIMIT must not be negative'' d
                else if \<not> u \<and> off < 0 then rejected ''OFFSET must not be negative'' d
                else resolved
                       (map row_json (page l off (by_date_desc (matching cs vs (table d))))) 0 d
            | _ \<Rightarrow> rejected ''invalid LIMIT or OFFSET'' d)"
  using assms by (simp add: sql_select_transactions_def nth_append split: option.splits)

lemma list_ok:
  assumes "status (fst (server u months (GetTransactions q) d)) = 200"
  shows "\<exists>l off. parseInt_default (q_limit q) 100 = Fin (of_int l) \<and>
           parseInt_default (q_offset q) 0 = Fin (of_int off) \<and>
           (\<not> u \<longrightarrow> 0 \<le> l \<and> 0 \<le> off) \<and>
           server u months (GetTransactions q) d =
             (respond 200
                [(''success'', JBool True),
                 (''data'', JArr (map JObj (map row_json
                     (page l off (by_date_desc (filter (satisfies q) (table d))))))),
                 (''count'', JNum (Fin (of_nat (length
                     (page l off (by_date_desc (filter (satisfies q) (table d))))))))], d)"
proof -
  let ?x = "JNum (parseInt_default (q_limit q) 100)"
  let ?y = "JNum (parseInt_default (q_offset q) 0)"
  have run: "server u months (GetTransactions q) d =
     awaiting
       (case (int_param ?x, int_param ?y) of
              (Some l, Some off) \<Rightarrow>
                if \<not> u \<and> l < 0 then rejected ''LIMIT must not be negative'' d
                else if \<not> u \<and> off < 0 then rejected ''OFFSET must not be negative'' d
                else resolved
                       (map row_json (page l off (by_date_desc (filter (satisfies q) (table d)))))
                       0 d
            | _ \<Rightarrow> rejected ''invalid LIMIT or OFFSET'' d)
       (\<lambda>res d'. (respond 200
              [(''success'', JBool True),
               (''data'', JArr (map JObj (rows res))),
               (''count'', JNum (Fin (of_nat (length (rows res)))))], d'))"
  proof -
    have "server u months (GetTransactions q) d =
      awaiting (sql_select_transactions u (fst (list_filters q))
                  (snd (list_filters q) @ [?x, ?y]) d)
       (\<lambda>res d'. (respond 200
              [(''success'', JBool True),
               (''data'', JArr (map JObj (rows res))),
               (''count'', JNum (Fin (of_nat (length (rows res)))))], d'))"
      by (simp add: server_def get_transactions_def list_filters_def Let_def)
    then show ?thesis
      unfolding select_transactions_run[OF length_list_filters] matching_list_filters .
  qed
  obtain l where l: "int_param ?x = Some l"
    using assms unfolding run
    by (cases "int_param ?x")
       (auto simp add: awaiting_rejected status_failure simp del: int_param.simps)
  obtain off where off: "int_param ?y = Some off"
    using assms l unfolding run
    by (cases "int_param ?y")
       (auto simp add: awaiting_rejected status_failure simp del: int_param.simps)
  have pg: "\<not> u \<longrightarrow> 0 \<le> l \<and> 0 \<le> off"
    using assms l off unfolding run
    by (auto simp add: awaiting_rejected status_failure simp del: int_param.simps
          split: if_splits)
  have "server u months (GetTransactions q) d =
             (respond 200
                [(''success'', JBool True),
                 (''data'', JArr (map JObj (map row_json
                     (page l off (by_date_desc (filter (satisfies q) (table d))))))),
                 (''count'', JNum (Fin (of_nat (length
                     (page l off (by_date_desc (filter (satisfies q) (table d))))))))], d)"
    using l off pg unfolding run
    by (auto simp add: awaiting_resolved simp del: int_param.simps)
  moreover from int_param_Some[OF l] have "parseInt_default (q_limit q) 100 = Fin (of_int l)"
    by simp
  moreover from int_param_Some[OF off] have "parseInt_default (q_offset q) 0 = Fin (of_int off)"
    by simp
  ultimately show ?thesis using pg by blast
qed

text \<open>
  C7, as amended. When \<open>GET /api/transactions\<close> answers 200, the limit and offset parsed
  to integers \<open>l\<close> and \<open>off\<close>, and \<open>data\<close> is the page \<open>rs\<close> cut from the rows of the
  table that satisfy the filters, ordered by date descending: every row of \<open>rs\<close> is a row of
  the table that satisfies every filter that is given and not empty, \<open>rs\<close> is ordered by
  date descending, and when \<open>l\<close> is not negative \<open>rs\<close> has at most \<open>l\<close> rows, the first
  \<open>l\<close> after skipping \<open>off\<close>. A negative \<open>l\<close> occurs on SQLite only, and then \<open>rs\<close>
  is every row after the offset.
\<close>

theorem list_filter_sound:
  assumes "status (fst (server u months (GetTransactions q) d)) = 200"
  shows "\<exists>rs l off.
           parseInt_default (q_limit q) 100 = Fin (of_int l) \<and>
           parseInt_default (q_offset q) 0 = Fin (of_int off) \<and>
           js_get (body (fst (server u months (GetTransactions q) d))) ''data'' =
             JArr (map JObj (map row_json rs)) \<and>
           rs = page l off (by_date_desc (filter (satisfies q) (table d))) \<and>
           (\<forall>r \<in> set rs. r \<in> set (table d) \<and> satisfies q r) \<and>
           date_desc rs \<and>
           (0 \<le> l \<longrightarrow> length rs \<le> nat l \<and>
              rs = take (nat l) (drop (nat off) (by_date_desc (filter (satisfies q) (table d))))) \<and>
           (l < 0 \<longrightarrow> u \<and>
              rs = drop (nat off) (by_date_desc (filter (satisfies q) (table d)))) \<and>
           set (by_date_desc (filter (satisfies q) (table d))) =
             {r \<in> set (table d). satisfies q r} \<and>
           length (by_date_desc (filter (satisfies q) (table d))) =
             length (filter (satisfies q) (table d)) \<and>
           date_desc (by_date_desc (filter (satisfies q) (table d)))"
proof -
  let ?all = "by_date_desc (filter (satisfies q) (table d))"
  from list_ok[OF assms] obtain l off where
    l: "parseInt_default (q_limit q) 100 = Fin (of_int l)" and
    off: "parseInt_default (q_offset q) 0 = Fin (of_int off)" and
    pg: "\<not> u \<longrightarrow> 0 \<le> l \<and> 0 \<le> off" and
    eq: "server u months (GetTransactions q) d =
             (respond 200
                [(''success'', JBool True),
                 (''data'', JArr (map JObj (map row_json (page l off ?all)))),
                 (''count'', JNum (Fin (of_nat (length (page l off ?all)))))], d)"
    by blast
  let ?rs = "page l off ?all"
  have dat: "js_get (body (fst (server u months (GetTransactions q) d))) ''data'' =
             JArr (map JObj (map row_json ?rs))"
    by (simp add: eq respond_def js_get_Cons)
  have sub: "\<forall>r \<in> set ?rs. r \<in> set (table d) \<and> satisfies q r"
    using page_props(1)[of l off ?all] by (auto simp add: by_date_desc_props)
  have srt: "date_desc ?rs"
    using by_date_desc_props(3)[of "filter (satisfies q) (table d)"]
    unfolding date_desc_def by (rule page_props(5))
  have bound: "0 \<le> l \<longrightarrow> length ?rs \<le> nat l \<and> ?rs = take (nat l) (drop (nat off) ?all)"
    by (simp add: page_props)
  have neg: "l < 0 \<longrightarrow> u \<and> ?rs = drop (nat off) ?all"
    using pg by (auto simp add: page_props)
  have st: "set ?all = {r \<in> set (table d). satisfies q r}"
    by (auto simp add: by_date_desc_props)
  have ln: "length ?all = length (filter (satisfies q) (table d))"
    by (simp add: by_date_desc_props)
  have sa: "date_desc ?all" by (rule by_date_desc_props)
  from l off dat sub srt bound neg st ln sa show ?thesis by blast
qed

lemma three_food:
  "server True no_months (GetTransactions q_food) db_three =
     (respond 200
        [(''success'', JBool True),
         (''data'', JArr [JObj (row_json row_snack)]),
         (''count'', JNum (Fin 1))], db_three)"
  by code_simp

theorem list_filter_sound_witness:
  "status (fst (server True no_months (GetTransactions q_food) db_three)) = 200 \<and>
   js_get (body (fst (server True no_months (GetTransactions q_food) db_three))) ''data'' =
     JArr [JObj (row_json row_snack)] \<and>
   (\<exists>rs l off.
           parseInt_default (q_limit q_food) 100 = Fin (of_int l) \<and>
           parseInt_default (q_offset q_food) 0 = Fin (of_int off) \<and>
           js_get (body (fst (server True no_months (GetTransactions q_food) db_three))) ''data'' =
             JArr (map JObj (map row_json rs)) \<and>
           rs = page l off (by_date_desc (filter (satisfies q_food) (table db_three))) \<and>
           (\<forall>r \<in> set rs. r \<in> set (table db_three) \<and> satisfies q_food r) \<and>
           date_desc rs \<and>
           (0 \<le> l \<longrightarrow> length rs \<le> nat l \<and>
              rs = take (nat l) (drop (nat off)
                     (by_date_desc (filter (satisfies q_food) (table db_three))))) \<and>
           (l < 0 \<longrightarrow> True \<and>
              rs = drop (nat off) (by_date_desc (filter (satisfies q_food) (table db_three)))) \<and>
           set (by_date_desc (filter (satisfies q_food) (table db_three))) =
             {r \<in> set (table db_three). satisfies q_food r} \<and>
           length (by_date_desc (filter (satisfies q_food) (table db_three))) =
             length (filter (satisfies q_food) (table db_three)) \<and>
           date_desc (by_date_desc (filter (satisfies q_food) (table db_three))))"
proof -
  have h: "status (fst (server True no_months (GetTransactions q_food) db_three)) = 200"
    by (simp add: three_food status_respond)
  have dat: "js_get (body (fst (server True no_months (GetTransactions q_food) db_three)))
               ''data'' = JArr [JObj (row_json row_snack)]"
    by (simp add: three_food respond_def js_get_Cons)
  from list_filter_sound[OF h] h dat show ?thesis by simp
qed

lemma three_blank_type:
  "server True no_months (GetTransactions q_blank_type) db_three =
     (respond 200
        [(''success'', JBool True),
         (''data'', JArr [JObj (row_json row_rent), JObj (row_json row_snack),
                          JObj (row_json row_unpaid)]),
         (''count'', JNum (Fin 3))], db_three)"
  by code_simp

lemma three_unbounded:
  "server True no_months (GetTransactions q_unbounded) db_three =
     (respond 200
        [(''success'', JBool True),
         (''data'', JArr [JObj (row_json row_rent), JObj (row_json row_snack),
                          JObj (row_json row_unpaid)]),
         (''count'', JNum (Fin 3))], db_three)"
  by code_simp

text \<open>
  C7, as stated, fails on SQLite for \<open>limit=-1\<close>: the three rows of the table are
  returned, which is more than the limit. It also fails for a \<open>budget_type\<close> that is
  given but empty: the handler adds no condition for it, and rows of every budget type are
  returned.
\<close>

theorem limit_counterexample:
  "parseInt_default (q_limit q_unbounded) 100 = Fin (- 1) \<and>
   status (fst (server True no_months (GetTransactions q_unbounded) db_three)) = 200 \<and>
   js_get (body (fst (server True no_months (GetTransactions q_unbounded) db_three))) ''data'' =
     JArr [JObj (row_json row_rent), JObj (row_json row_snack), JObj (row_json row_unpaid)] \<and>
   \<not> int (length [row_rent, row_snack, row_unpaid]) \<le> - 1 \<and>
   q_budget_type q_blank_type = Some [] \<and>
   js_get (body (fst (server True no_months (GetTransactions q_blank_type) db_three))) ''data'' =
     JArr [JObj (row_json row_rent), JObj (row_json row_snack), JObj (row_json row_unpaid)] \<and>
   r_budget_type row_rent \<noteq> JStr []"
proof -
  have l: "parseInt_default (q_limit q_unbounded) 100 = Fin (- 1)" by code_simp
  have q: "q_budget_type q_blank_type = Some []" by (simp add: q_blank_type_def)
  have r: "r_budget_type row_rent \<noteq> JStr []" by (simp add: row_rent_def)
  from l q r show ?thesis
    by (simp add: three_unbounded three_blank_type respond_def js_get_Cons)
qed

subsection \<open>The budget-type summary\<close>

lemma map_of_add_to_group:
  "map_of (add_to_group k x gs) =
     (map_of gs)(k \<mapsto>
        (case map_of gs k of
           None \<Rightarrow> \<lparr>g_count = 1, g_sum = x, g_min = x, g_max = x\<rparr>
         | Some a \<Rightarrow> \<lparr>g_count = Suc (g_count a), g_sum = g_sum a + x,
                      g_min = min (g_min a) x, g_max = max (g_max a) x\<rparr>))"
  by (induction gs) (auto simp add: fun_eq_iff)

lemma keys_add_to_group:
  "map fst (add_to_group k x gs) =
     (if k \<in> set (map fst gs) then map fst gs else map fst gs @ [k])"
  by (induction gs) (force split: if_splits)+

lemma group_amounts_snoc:
  "group_amounts (t @ [r]) = add_to_group (r_budget_type r) (r_amount r) (group_amounts t)"
  by (simp add: group_amounts_def)

lemma agg_of_single: "agg_of [x] = \<lparr>g_count = 1, g_sum = x, g_min = x, g_max = x\<rparr>"
  by (simp add: agg_of_def)

lemma agg_of_snoc:
  assumes "xs \<noteq> []"
  shows "agg_of (xs @ [x]) =
           \<lparr>g_count = Suc (g_count (agg_of xs)), g_sum = g_sum (agg_of xs) + x,
            g_min = min (g_min (agg_of xs)) x, g_max = max (g_max (agg_of xs)) x\<rparr>"
proof -
  have ne: "set xs \<noteq> {}" using assms by simp
  have "Min (insert x (set xs)) = min (Min (set xs)) x"
    using ne by (simp add: min.commute)
  moreover have "Max (insert x (set xs)) = max (Max (set xs)) x"
    using ne by (simp add: max.commute)
  ultimately show ?thesis by (simp add: agg_of_def)
qed

lemma group_amounts_keys:
  "distinct (map fst (group_amounts t)) \<and>
   set (map fst (group_amounts t)) = set (map r_budget_type t)"
proof (induction t rule: rev_induct)
  case Nil
  then show ?case by (simp add: group_amounts_def)
next
  case (snoc r t)
  then show ?case
    by (auto simp add: group_amounts_snoc keys_add_to_group)
qed

lemma group_amounts_lookup:
  "k \<in> set (map r_budget_type t) \<Longrightarrow>
     map_of (group_amounts t) k = Some (agg_of (amounts_of k t))"
proof (induction t rule: rev_induct)
  case Nil
  then show ?case by simp
next
  case (snoc r t)
  show ?case
  proof (cases "r_budget_type r = k")
    case False
    with snoc have "k \<in> set (map r_budget_type t)" by auto
    with snoc.IH False show ?thesis
      by (simp add: group_amounts_snoc map_of_add_to_group amounts_of_def)
  next
    case True
    show ?thesis
    proof (cases "k \<in> set (map r_budget_type t)")
      case in_t: True
      then have ne: "amounts_of k t \<noteq> []"
        by (auto simp add: amounts_of_def filter_empty_conv)
      from snoc.IH[OF in_t] True agg_of_snoc[OF ne, of "r_amount r"] show ?thesis
        by (simp add: group_amounts_snoc map_of_add_to_group amounts_of_def)
    next
      case not_in: False
      then have "k \<notin> fst ` set (group_amounts t)"
        using group_amounts_keys[of t] by auto
      then have none: "map_of (group_amounts t) k = None"
        by (simp add: map_of_eq_None_iff)
      from not_in have "amounts_of k t = []"
        by (auto simp add: amounts_of_def filter_empty_conv)
      with none True show ?thesis
        by (simp add: group_amounts_snoc map_of_add_to_group amounts_of_def agg_of_single)
    qed
  qed
qed

lemma group_amounts_member:
  assumes "g \<in> set (group_amounts t)"
  shows "snd g = agg_of (amounts_of (fst g) t)"
proof -
  obtain k a where g: "g = (k, a)" by (cases g)
  from assms g have "map_of (group_amounts t) k = Some a"
    using group_amounts_keys[of t] by simp
  moreover from assms g have "k \<in> set (map r_budget_type t)"
    using group_amounts_keys[of t] by force
  ultimately show ?thesis using group_amounts_lookup g by simp
qed

lemma budget_summary_props:
  "set (budget_summary t) = set (group_amounts t)"
  "distinct (map fst (budget_summary t))"
  "total_desc (budget_summary t)"
proof -
  show "set (budget_summary t) = set (group_amounts t)"
    by (simp add: budget_summary_def)
  have "distinct (map fst (group_amounts t))" using group_amounts_keys by blast
  then have "distinct (group_amounts t) \<and> inj_on fst (set (group_amounts t))"
    by (simp add: distinct_map)
  then show "distinct (map fst (budget_summary t))"
    by (simp add: budget_summary_def distinct_map)
  have "sorted (map (\<lambda>g. g_sum (snd g)) (sort_key (\<lambda>g. g_sum (snd g)) (group_amounts t)))"
    by (rule sorted_sort_key)
  then show "total_desc (budget_summary t)"
    by (simp add: total_desc_def budget_summary_def sorted_wrt_rev sorted_map)
qed

text \<open>
  C8. \<open>GET /api/summary/budget-types\<close> answers 200 with one row per group of
  \<open>budget_summary\<close>. The budget types of the rows are pairwise distinct and are exactly
  the budget types stored in the table; in the row of a budget type,
  \<open>transaction_count\<close>, \<open>total_amount\<close>, \<open>avg_amount\<close>, \<open>min_amount\<close> and
  \<open>max_amount\<close> are the length, the sum, the sum divided by the length, the minimum and the
  maximum of the amounts of the transactions with that budget type; and the rows are ordered
  by total, descending.
\<close>

theorem budget_type_summary:
  "server u months GetSummaryBudgetTypes d =
     (respond 200
        [(''success'', JBool True),
         (''data'', JArr (map JObj (map summary_row (budget_summary (table d)))))], d) \<and>
   distinct (map fst (budget_summary (table d))) \<and>
   set (map fst (budget_summary (table d))) = set (map r_budget_type (table d)) \<and>
   (\<forall>g \<in> set (budget_summary (table d)).
      summary_row g =
        [(''budget_type'', fst g),
         (''transaction_count'', JNum (Fin (of_nat (length (amounts_of (fst g) (table d)))))),
         (''total_amount'', JNum (Fin (sum_list (amounts_of (fst g) (table d))))),
         (''avg_amount'', JNum (Fin (sum_list (amounts_of (fst g) (table d)) /
                                     of_nat (length (amounts_of (fst g) (table d)))))),
         (''min_amount'', JNum (Fin (Min (set (amounts_of (fst g) (table d)))))),
         (''max_amount'', JNum (Fin (Max (set (amounts_of (fst g) (table d))))))] \<and>
      g_sum (snd g) = sum_list (amounts_of (fst g) (table d))) \<and>
   total_desc (budget_summary (table d))"
proof -
  have run: "server u months GetSummaryBudgetTypes d =
     (respond 200
        [(''success'', JBool True),
         (''data'', JArr (map JObj (map summary_row (budget_summary (table d)))))], d)"
    by (simp add: server_def summary_budget_types_def rows_route_def awaiting_resolved)
  have keys: "set (map fst (budget_summary (table d))) = set (map r_budget_type (table d))"
    using group_amounts_keys[of "table d"] budget_summary_props(1)[of "table d"] by simp
  have each: "\<forall>g \<in> set (budget_summary (table d)).
      summary_row g =
        [(''budget_type'', fst g),
         (''transaction_count'', JNum (Fin (of_nat (length (amounts_of (fst g) (table d)))))),
         (''total_amount'', JNum (Fin (sum_list (amounts_of (fst g) (table d))))),
         (''avg_amount'', JNum (Fin (sum_list (amounts_of (fst g) (table d)) /
                                     of_nat (length (amounts_of (fst g) (table d)))))),
         (''min_amount'', JNum (Fin (Min (set (amounts_of (fst g) (table d)))))),
         (''max_amount'', JNum (Fin (Max (set (amounts_of (fst g) (table d))))))] \<and>
      g_sum (snd g) = sum_list (amounts_of (fst g) (table d))"
  proof
    fix g assume "g \<in> set (budget_summary (table d))"
    then have "g \<in> set (group_amounts (table d))"
      by (simp add: budget_summary_props(1))
    from group_amounts_member[OF this]
    show "summary_row g =
        [(''budget_type'', fst g),
         (''transaction_count'', JNum (Fin (of_nat (length (amounts_of (fst g) (table d)))))),
         (''total_amount'', JNum (Fin (sum_list (amounts_of (fst g) (table d))))),
         (''avg_amount'', JNum (Fin (sum_list (amounts_of (fst g) (table d)) /
                                     of_nat (length (amounts_of (fst g) (table d)))))),
         (''min_amount'', JNum (Fin (Min (set (amounts_of (fst g) (table d)))))),
         (''max_amount'', JNum (Fin (Max (set (amounts_of (fst g) (table d))))))] \<and>
      g_sum (snd g) = sum_list (amounts_of (fst g) (table d))"
      by (simp add: summary_row_def agg_of_def)
  qed
  from run keys each budget_summary_props(2,3)[of "table d"] show ?thesis by blast
qed

lemma summary_three:
  "budget_summary (table db_three) =
     [(JStr ''Rent'', \<lparr>g_count = 1, g_sum = 900, g_min = 900, g_max = 900\<rparr>),
      (JStr ''Food'', \<lparr>g_count = 2, g_sum = 20, g_min = 8, g_max = 12\<rparr>)]"
  by code_simp

lemma amounts_food: "amounts_of (JStr ''Food'') (table db_three) = [12, 8]"
  by (simp add: amounts_of_def db_three_def row_unpaid_def row_rent_def row_snack_def)

theorem budget_type_summary_witness:
  "(JStr ''Food'', \<lparr>g_count = 2, g_sum = 20, g_min = 8, g_max = 12\<rparr>)
     \<in> set (budget_summary (table db_three)) \<and>
   summary_row (JStr ''Food'', \<lparr>g_count = 2, g_sum = 20, g_min = 8, g_max = 12\<rparr>) =
     [(''budget_type'', JStr ''Food''),
      (''transaction_count'', JNum (Fin 2)),
      (''total_amount'', JNum (Fin 20)),
      (''avg_amount'', JNum (Fin 10)),
      (''min_amount'', JNum (Fin 8)),
      (''max_amount'', JNum (Fin 12))] \<and>
   map fst (budget_summary (table db_three)) = [JStr ''Rent'', JStr ''Food''] \<and>
   set (map r_budget_type (table db_three)) = {JStr ''Rent'', JStr ''Food''} \<and>
   total_desc (budget_summary (table db_three))"
proof -
  let ?g = "(JStr ''Food'', \<lparr>g_count = 2, g_sum = 20, g_min = 8, g_max = 12\<rparr>)"
  have m: "?g \<in> set (budget_summary (table db_three))"
    by (simp add: summary_three)
  have k: "map fst (budget_summary (table db_three)) = [JStr ''Rent'', JStr ''Food'']"
    by (simp add: summary_three)
  from budget_type_summary[of True no_months db_three] m
  have "summary_row ?g =
        [(''budget_type'', fst ?g),
         (''transaction_count'', JNum (Fin (of_nat (length (amounts_of (fst ?g) (table db_three)))))),
         (''total_amount'', JNum (Fin (sum_list (amounts_of (fst ?g) (table db_three))))),
         (''avg_amount'', JNum (Fin (sum_list (amounts_of (fst ?g) (table db_three)) /
                                     of_nat (length (amounts_of (fst ?g) (table db_three)))))),
         (''min_amount'', JNum (Fin (Min (set (amounts_of (fst ?g) (table db_three)))))),
         (''max_amount'', JNum (Fin (Max (set (amounts_of (fst ?g) (table db_three))))))]"
    by blast
  then have r: "summary_row ?g =
     [(''budget_type'', JStr ''Food''),
      (''transaction_count'', JNum (Fin 2)),
      (''total_amount'', JNum (Fin 20)),
      (''avg_amount'', JNum (Fin 10)),
      (''min_amount'', JNum (Fin 8)),
      (''max_amount'', JNum (Fin 12))]"
    by (simp add: amounts_food)
  from budget_type_summary[of True no_months db_three]
  have s: "set (map fst (budget_summary (table db_three))) = set (map r_budget_type (table db_three))"
    and t: "total_desc (budget_summary (table db_three))"
    by blast+
  from s have "set (map r_budget_type (table db_three)) = {JStr ''Rent'', JStr ''Food''}"
    unfolding k by simp
  with m r k t show ?thesis by blast
qed

end
